theory Spec2Isabelle
  imports Complex_Main
begin

section \<open>Allocation and rebalancing engine (app/services/allocation_service.py)\<close>

text \<open>
  Numbers. The source computes with Python \<open>float\<close> (the allocators) and \<open>Decimal\<close> (the
  cash deployment calculator). Both are modelled by \<^typ>\<open>real\<close> with exact arithmetic:
  the model says what the formulas of the code compute, and says nothing about rounding.
  Python \<open>int\<close> is \<^typ>\<open>int\<close>. A dict whose order matters is an association list.
\<close>

datatype error = ValueError string | KeyError string

subsection \<open>Cash deployment calculator\<close>

text \<open>
  One row of \<open>portfolio_data\<close>. \<open>c['id']\<close>, \<open>c['name']\<close> and \<open>c['identifier']\<close> are read with
  brackets, \<open>price_eur\<close> and \<open>current_value\<close> with \<open>get\<close>: \<open>None\<close> stands for an absent key
  (or a stored \<open>None\<close>, for the price).
\<close>

record company =
  c_id :: string
  c_name :: string
  c_identifier :: string
  c_price_eur :: "real option"
  c_current_value :: "real option"

text \<open>The dataclass \<open>RebalancingRecommendation\<close>.\<close>

record RebalancingRecommendation =
  company_name :: string
  r_identifier :: string
  current_value :: real
  target_value :: real
  amount_to_buy :: real
  shares_to_buy :: real
  current_price :: real

text \<open>\<open>next((c for c in portfolio_data if c['id'] == company_id), None)\<close>\<close>

definition find_company :: "company list \<Rightarrow> string \<Rightarrow> company option" where
  "find_company portfolio_data company_id = find (\<lambda>c. c_id c = company_id) portfolio_data"

text \<open>
  \<open>not company or not company.get('price_eur')\<close>: the price is usable when the row exists and
  its price is neither \<open>None\<close> nor zero. The result is the row with its price.
\<close>

definition priced_company :: "company list \<Rightarrow> string \<Rightarrow> (company \<times> real) option" where
  "priced_company portfolio_data company_id =
     (case find_company portfolio_data company_id of
        None \<Rightarrow> None
      | Some c \<Rightarrow>
          (case c_price_eur c of
             None \<Rightarrow> None
           | Some price \<Rightarrow> if price = 0 then None else Some (c, price)))"

text \<open>\<open>Decimal(str(c.get('current_value', 0)))\<close>\<close>

definition get_current_value :: "company \<Rightarrow> real" where
  "get_current_value c = (case c_current_value c of None \<Rightarrow> 0 | Some v \<Rightarrow> v)"

fun calculate_proportional ::
  "company list \<Rightarrow> (string \<times> real) list \<Rightarrow> real \<Rightarrow> RebalancingRecommendation list" where
  "calculate_proportional portfolio_data [] investment_amount = []"
| "calculate_proportional portfolio_data ((company_id, target_pct) # rest) investment_amount =
     (case priced_company portfolio_data company_id of
        None \<Rightarrow> calculate_proportional portfolio_data rest investment_amount
      | Some (c, price) \<Rightarrow>
          (let allocation_amount = investment_amount * (target_pct / 100);
               shares = allocation_amount / price
           in \<lparr>company_name = c_name c, r_identifier = c_identifier c,
               current_value = get_current_value c, target_value = allocation_amount,
               amount_to_buy = allocation_amount, shares_to_buy = shares,
               current_price = price\<rparr>
              # calculate_proportional portfolio_data rest investment_amount))"

text \<open>
  The loop of \<open>_calculate_target_weights\<close>, with \<open>new_total_value\<close> computed before it. A
  position is appended only when \<open>amount_to_buy > 0\<close>.
\<close>

fun target_weights_loop ::
  "company list \<Rightarrow> real \<Rightarrow> (string \<times> real) list \<Rightarrow> RebalancingRecommendation list" where
  "target_weights_loop portfolio_data new_total_value [] = []"
| "target_weights_loop portfolio_data new_total_value ((company_id, target_pct) # rest) =
     (case priced_company portfolio_data company_id of
        None \<Rightarrow> target_weights_loop portfolio_data new_total_value rest
      | Some (c, price) \<Rightarrow>
          (let cur = get_current_value c;
               target = new_total_value * (target_pct / 100);
               amount = max 0 (target - cur)
           in if amount > 0
              then \<lparr>company_name = c_name c, r_identifier = c_identifier c,
                    current_value = cur, target_value = target,
                    amount_to_buy = amount, shares_to_buy = amount / price,
                    current_price = price\<rparr>
                   # target_weights_loop portfolio_data new_total_value rest
              else target_weights_loop portfolio_data new_total_value rest))"

definition calculate_target_weights ::
  "company list \<Rightarrow> (string \<times> real) list \<Rightarrow> real \<Rightarrow> RebalancingRecommendation list" where
  "calculate_target_weights portfolio_data target_allocations investment_amount =
     (let current_total_value = sum_list (map get_current_value portfolio_data);
          new_total_value = current_total_value + investment_amount
      in target_weights_loop portfolio_data new_total_value target_allocations)"

text \<open>\<open>c.get('price_eur') and Decimal(str(c['price_eur'])) > 0\<close>\<close>

definition valid_holding :: "company \<Rightarrow> bool" where
  "valid_holding c = (case c_price_eur c of None \<Rightarrow> False | Some price \<Rightarrow> price \<noteq> 0 \<and> price > 0)"

definition equal_weight_recommendation :: "real \<Rightarrow> company \<Rightarrow> RebalancingRecommendation" where
  "equal_weight_recommendation amount_per_holding c =
     (let price = (case c_price_eur c of None \<Rightarrow> 0 | Some p \<Rightarrow> p)
      in \<lparr>company_name = c_name c, r_identifier = c_identifier c,
          current_value = get_current_value c,
          target_value = get_current_value c + amount_per_holding,
          amount_to_buy = amount_per_holding,
          shares_to_buy = amount_per_holding / price,
          current_price = price\<rparr>)"

definition calculate_equal_weight :: "company list \<Rightarrow> real \<Rightarrow> RebalancingRecommendation list" where
  "calculate_equal_weight portfolio_data investment_amount =
     (let valid_holdings = filter valid_holding portfolio_data
      in if valid_holdings = [] then []
         else map (equal_weight_recommendation
                     (investment_amount / real (length valid_holdings))) valid_holdings)"

definition calculate_rebalancing ::
  "company list \<Rightarrow> (string \<times> real) list \<Rightarrow> real \<Rightarrow> string
     \<Rightarrow> error + RebalancingRecommendation list" where
  "calculate_rebalancing portfolio_data target_allocations investment_amount mode =
     (if mode = ''proportional''
      then Inr (calculate_proportional portfolio_data target_allocations investment_amount)
      else if mode = ''target_weights''
      then Inr (calculate_target_weights portfolio_data target_allocations investment_amount)
      else if mode = ''equal_weight''
      then Inr (calculate_equal_weight portfolio_data investment_amount)
      else Inl (ValueError (''Unknown allocation mode: '' @ mode)))"

subsection \<open>Validation of an allocation map\<close>

text \<open>
  \<open>validate_allocations\<close> returns \<open>(is_valid, error_message)\<close>. The message is kept as a
  value that carries the numbers the source formats into its text.
\<close>

datatype validation_message =
    MustSumTo100 real
  | StockExceedsMax real real

definition validate_allocations ::
  "real \<Rightarrow> (string \<times> real) list \<Rightarrow> bool \<times> validation_message option" where
  "validate_allocations max_stock_percentage allocations =
     (let total = sum_list (map snd allocations)
      in if \<bar>total - 100\<bar> > 1 / 100 then (False, Some (MustSumTo100 total))
         else (case find (\<lambda>(company_id, pct). pct > max_stock_percentage) allocations of
                 Some (company_id, pct) \<Rightarrow> (False, Some (StockExceedsMax pct max_stock_percentage))
               | None \<Rightarrow> (True, None)))"

text \<open>The default of \<open>AllocationRule.max_stock_percentage\<close>.\<close>

definition default_max_stock_percentage :: real where
  "default_max_stock_percentage = 5"

subsection \<open>Positions\<close>

text \<open>
  The four keys \<open>unconstrained_target_value\<close>, \<open>constrained_target_value\<close>, \<open>is_capped\<close> and
  \<open>applicable_rule\<close> are always written together by the source (at the first pass of the
  allocator, in its zero-value exit, and when the caller copies them back by name), so a
  position holds them as one optional group: \<open>None\<close> is a dict without these keys.
  \<open>applicable_rule\<close> is \<open>None\<close> where the source stores Python's \<open>None\<close>.
\<close>

record capping =
  unconstrained_target_value :: real
  constrained_target_value :: real
  is_capped :: bool
  applicable_rule :: "string option"

text \<open>
  A position dict. \<open>pos_identifier\<close> (the key \<open>identifier\<close>) and \<open>investment_type\<close> are
  \<open>None\<close> for Python's \<open>None\<close> or an absent key; \<open>isPlaceholder\<close> is \<open>False\<close> when the key is absent (it is read with
  \<open>get\<close> only); \<open>targetValue\<close> is absent until the unconstrained allocator writes it.
\<close>

record position =
  name :: string
  currentValue :: real
  targetAllocation :: real
  pos_identifier :: "string option"
  investment_type :: "string option"
  isPlaceholder :: bool
  targetValue :: "real option"
  capping :: "capping option"

text \<open>\<open>pos.get('targetValue', 0)\<close>\<close>

definition get_targetValue :: "position \<Rightarrow> real" where
  "get_targetValue pos = (case targetValue pos of None \<Rightarrow> 0 | Some v \<Rightarrow> v)"

text \<open>\<open>pos.get('is_capped', False)\<close>\<close>

definition get_is_capped :: "position \<Rightarrow> bool" where
  "get_is_capped pos = (case capping pos of None \<Rightarrow> False | Some m \<Rightarrow> is_capped m)"

text \<open>
  \<open>pos['constrained_target_value']\<close> and \<open>pos['unconstrained_target_value']\<close>. The source
  raises \<open>KeyError\<close> on a dict without the key; the allocator below raises it before any
  such read, so the value for \<open>None\<close> here is never used by it.
\<close>

definition constrained_value :: "position \<Rightarrow> real" where
  "constrained_value pos = (case capping pos of None \<Rightarrow> 0 | Some m \<Rightarrow> constrained_target_value m)"

definition unconstrained_value :: "position \<Rightarrow> real" where
  "unconstrained_value pos =
     (case capping pos of None \<Rightarrow> 0 | Some m \<Rightarrow> unconstrained_target_value m)"

subsection \<open>Type-constrained allocator\<close>

text \<open>The rules of one call: \<open>max_stock_pct\<close>, \<open>max_etf_pct\<close>, \<open>max_crypto_pct\<close>.\<close>

record caps =
  max_stock_pct :: real
  max_etf_pct :: real
  max_crypto_pct :: real

text \<open>
  The cap and the rule name for an investment type (lines 102-111); \<open>None\<close> is the final
  \<open>else\<close>: an unknown type.
\<close>

definition cap_rule :: "caps \<Rightarrow> string option \<Rightarrow> (real \<times> string) option" where
  "cap_rule rules itype =
     (if itype = Some ''Stock'' then Some (max_stock_pct rules, ''maxPerStock'')
      else if itype = Some ''ETF'' then Some (max_etf_pct rules, ''maxPerETF'')
      else if itype = Some ''Crypto'' then Some (max_crypto_pct rules, ''maxPerCrypto'')
      else None)"

text \<open>The exit for a portfolio target value \<open>\<le> 0\<close> (lines 58-62).\<close>

definition zero_portfolio_value :: "position \<Rightarrow> position" where
  "zero_portfolio_value pos =
     pos\<lparr>capping := Some \<lparr>unconstrained_target_value = get_targetValue pos,
                           constrained_target_value = 0,
                           is_capped = True,
                           applicable_rule = Some ''zero_portfolio_value''\<rparr>\<rparr>"

text \<open>The initialisation of the first pass (lines 70-74).\<close>

definition init_metadata :: "position \<Rightarrow> position" where
  "init_metadata pos =
     pos\<lparr>capping := Some \<lparr>unconstrained_target_value = get_targetValue pos,
                           constrained_target_value = get_targetValue pos,
                           is_capped = False,
                           applicable_rule = None\<rparr>\<rparr>"

definition capped_positions :: "position list \<Rightarrow> position list" where
  "capped_positions positions = filter get_is_capped positions"

definition uncapped_positions :: "position list \<Rightarrow> position list" where
  "uncapped_positions positions = filter (\<lambda>pos. \<not> get_is_capped pos) positions"

text \<open>\<open>sum(pos['constrained_target_value'] for pos in capped_positions)\<close>\<close>

definition capped_value :: "position list \<Rightarrow> real" where
  "capped_value positions = sum_list (map constrained_value (capped_positions positions))"

text \<open>
  The body of the loop over the uncapped positions (lines 97-135) for one position that
  carries the metadata \<open>m\<close>: the new metadata, and whether the position was capped.
\<close>

definition cap_metadata :: "caps \<Rightarrow> real \<Rightarrow> string option \<Rightarrow> capping \<Rightarrow> capping \<times> bool" where
  "cap_metadata rules portfolio_target_value itype m =
     (let target_pct = (constrained_target_value m / portfolio_target_value) * 100
      in case cap_rule rules itype of
           None \<Rightarrow>
             (m\<lparr>is_capped := True, constrained_target_value := 0,
                applicable_rule := Some ''unknown_type''\<rparr>, True)
         | Some (cap_pct, rule) \<Rightarrow>
             if target_pct > cap_pct
             then (m\<lparr>is_capped := True,
                     constrained_target_value := (cap_pct / 100) * portfolio_target_value,
                     applicable_rule := Some rule\<rparr>, True)
             else (m, False))"

text \<open>
  The loop mutates the dicts of the uncapped positions in place; the capped ones are not
  visited. On the list of all positions that is a map which leaves the capped ones alone.
\<close>

definition cap_position :: "caps \<Rightarrow> real \<Rightarrow> position \<Rightarrow> position" where
  "cap_position rules portfolio_target_value pos =
     (case capping pos of
        None \<Rightarrow> pos
      | Some m \<Rightarrow>
          if is_capped m then pos
          else pos\<lparr>capping :=
                 Some (fst (cap_metadata rules portfolio_target_value (investment_type pos) m))\<rparr>)"

text \<open>Whether the loop sets \<open>any_capped_this_iteration\<close> at this position.\<close>

definition newly_capped :: "caps \<Rightarrow> real \<Rightarrow> position \<Rightarrow> bool" where
  "newly_capped rules portfolio_target_value pos =
     (case capping pos of
        None \<Rightarrow> False
      | Some m \<Rightarrow>
          \<not> is_capped m
          \<and> snd (cap_metadata rules portfolio_target_value (investment_type pos) m))"

definition any_capped_this_iteration :: "caps \<Rightarrow> real \<Rightarrow> position list \<Rightarrow> bool" where
  "any_capped_this_iteration rules portfolio_target_value positions =
     list_ex (newly_capped rules portfolio_target_value) positions"

text \<open>\<open>pos['constrained_target_value'] = v\<close> on a position that has the key.\<close>

definition set_constrained :: "real \<Rightarrow> position \<Rightarrow> position" where
  "set_constrained v pos =
     pos\<lparr>capping := map_option (\<lambda>m. m\<lparr>constrained_target_value := v\<rparr>) (capping pos)\<rparr>"

text \<open>
  The redistribution after a pass that capped something (lines 140-161), on the list as
  the capping loop left it.
\<close>

definition redistribute :: "real \<Rightarrow> position list \<Rightarrow> position list" where
  "redistribute portfolio_target_value positions =
     (let new_uncapped_positions = uncapped_positions positions
      in if new_uncapped_positions = [] then positions
         else
           let new_capped_value = capped_value positions;
               new_available_value = portfolio_target_value - new_capped_value
           in if new_available_value > 0
              then
                let total_uncapped_weight =
                      sum_list (map unconstrained_value new_uncapped_positions)
                in if total_uncapped_weight > 0
                   then map (\<lambda>pos. if get_is_capped pos then pos
                                    else set_constrained
                                           ((unconstrained_value pos / total_uncapped_weight)
                                              * new_available_value) pos) positions
                   else
                     let equal_share =
                           new_available_value / real (length new_uncapped_positions)
                     in map (\<lambda>pos. if get_is_capped pos then pos
                                     else set_constrained equal_share pos) positions
              else positions)"

text \<open>
  Which \<open>return\<close> ended the recursion; each one but the last writes its own log line:
  the iteration ceiling (line 52), the zero-value exit (line 63), all positions capped
  (line 83), no available value (line 91), and convergence (line 180).
\<close>

datatype exit = MaxIterations | ZeroPortfolioValue | AllCapped | NoAvailableValue | Converged

text \<open>
  \<open>_apply_type_constraints_recursive\<close>. The result is the returned list together with the
  exit taken. \<open>KeyError\<close> is line 99 reading \<open>constrained_target_value\<close> from an uncapped
  position without metadata, which can only happen when the function is entered with
  \<open>iteration \<noteq> 0\<close>.
\<close>

function apply_type_constraints_recursive ::
  "position list \<Rightarrow> real \<Rightarrow> caps \<Rightarrow> int \<Rightarrow> int \<Rightarrow> error + (exit \<times> position list)" where
  "apply_type_constraints_recursive positions portfolio_target_value rules iteration max_iterations =
     (if iteration \<ge> max_iterations then Inr (MaxIterations, positions)
      else if portfolio_target_value \<le> 0
      then Inr (ZeroPortfolioValue, map zero_portfolio_value positions)
      else
        let positions0 = (if iteration = 0 then map init_metadata positions else positions)
        in if uncapped_positions positions0 = [] then Inr (AllCapped, positions0)
           else if portfolio_target_value - capped_value positions0 \<le> 0
           then Inr (NoAvailableValue, positions0)
           else if list_ex (\<lambda>pos. capping pos = None) positions0
           then Inl (KeyError ''constrained_target_value'')
           else if any_capped_this_iteration rules portfolio_target_value positions0
           then apply_type_constraints_recursive
                  (redistribute portfolio_target_value
                     (map (cap_position rules portfolio_target_value) positions0))
                  portfolio_target_value rules (iteration + 1) max_iterations
           else Inr (Converged, positions0))"
  by pat_completeness auto
termination
  by (relation "measure (\<lambda>(positions, v, rules, iteration, max_iterations).
                            nat (max_iterations - iteration))") auto

declare apply_type_constraints_recursive.simps [simp del]

text \<open>The default of \<open>max_iterations\<close>.\<close>

definition default_max_iterations :: int where
  "default_max_iterations = 100"

subsection \<open>Predicates used to state the allocator's properties\<close>

text \<open>The position carries the four metadata keys.\<close>

definition has_metadata :: "position \<Rightarrow> bool" where
  "has_metadata pos = (capping pos \<noteq> None)"

text \<open>
  What the redistribution assigns to an uncapped position of the list it is given: its
  share of the remaining capacity by original weight, or the equal share when the
  weights do not sum to a positive number.
\<close>

definition share_of :: "real \<Rightarrow> position list \<Rightarrow> position \<Rightarrow> real" where
  "share_of v positions pos =
     (let W = sum_list (map unconstrained_value (uncapped_positions positions));
          A = v - capped_value positions
      in if W > 0 then (unconstrained_value pos / W) * A
         else A / real (length (uncapped_positions positions)))"

text \<open>
  The constrained value is at most the cap of the position's type (a position of unknown
  type has no cap), respectively sits exactly where the capping loop puts it.
\<close>

definition within_cap :: "caps \<Rightarrow> real \<Rightarrow> position \<Rightarrow> bool" where
  "within_cap rules v pos =
     (case cap_rule rules (investment_type pos) of
        None \<Rightarrow> True
      | Some (cap_pct, rule) \<Rightarrow> constrained_value pos \<le> (cap_pct / 100) * v)"

definition at_cap :: "caps \<Rightarrow> real \<Rightarrow> position \<Rightarrow> bool" where
  "at_cap rules v pos =
     (case cap_rule rules (investment_type pos) of
        None \<Rightarrow> constrained_value pos = 0
      | Some (cap_pct, rule) \<Rightarrow> constrained_value pos = (cap_pct / 100) * v)"

text \<open>
  Between passes: every capped position sits at its cap, and when no capacity is left
  the uncapped ones are within theirs.
\<close>

definition cap_invariant :: "caps \<Rightarrow> real \<Rightarrow> position list \<Rightarrow> bool" where
  "cap_invariant rules v positions =
     ((\<forall>pos\<in>set positions. get_is_capped pos \<longrightarrow> at_cap rules v pos)
      \<and> (v - capped_value positions \<le> 0
           \<longrightarrow> (\<forall>pos\<in>set positions. \<not> get_is_capped pos \<longrightarrow> within_cap rules v pos)))"


subsection \<open>Running the allocator on its own output\<close>






subsection \<open>Unconstrained target allocator\<close>

text \<open>
  An entry of a builder configuration's \<open>positions\<close>: \<open>isPlaceholder\<close> (read with \<open>get\<close>,
  so \<open>False\<close> when absent), \<open>weight\<close> (\<open>None\<close> when the key is absent) and \<open>companyName\<close>.
\<close>

record builder_position =
  bp_isPlaceholder :: bool
  bp_weight :: "real option"
  bp_companyName :: "string option"

text \<open>
  A value of \<open>portfolio_builder_data\<close>; every key is read with \<open>get\<close>. \<open>empty_builder_data\<close>
  is the \<open>{}\<close> used for a portfolio name without configuration.
\<close>

record builder_data =
  bd_minPositions :: "int option"
  bd_desiredPositions :: "int option"
  bd_allocation :: "real option"
  bd_positions :: "builder_position list"

definition empty_builder_data :: builder_data where
  "empty_builder_data =
     \<lparr>bd_minPositions = None, bd_desiredPositions = None, bd_allocation = None,
      bd_positions = []\<rparr>"

text \<open>An entry of \<open>target_allocations\<close>, as far as this function reads it.\<close>

record target_portfolio =
  tp_name :: "string option"
  tp_allocation :: "real option"

text \<open>A value of \<open>portfolio_map\<close> and of its \<open>sectors\<close> dict (both dicts keep insertion order).\<close>

record sector_data =
  sd_positions :: "position list"
  sd_currentValue :: real

record pdata =
  pd_name :: string
  pd_sectors :: "(string \<times> sector_data) list"
  pd_currentValue :: real

text \<open>
  The dicts of the result. A sector read from the data has no \<open>isPlaceholder\<close> key, which
  \<open>get\<close> reads as false.
\<close>

record sector_entry =
  se_name :: string
  se_positions :: "position list"
  se_currentValue :: real
  se_positionCount :: nat
  se_isPlaceholder :: bool
  se_targetValue :: real
  se_targetWeight :: real

record portfolio_entry =
  pe_name :: string
  pe_currentValue :: real
  pe_targetWeight :: real
  pe_color :: string
  pe_sectors :: "sector_entry list"
  pe_minPositions :: int
  pe_desiredPositions :: "int option"
  pe_effectivePositions :: int
  pe_builderPositions :: "builder_position list"
  pe_builderAllocation :: real
  pe_targetValue :: real
  pe_targetAllocation_portfolio :: real

text \<open>Python's \<open>round\<close> of a number to an integer: to the nearest, ties to the even one.\<close>

definition py_round :: "real \<Rightarrow> int" where
  "py_round x =
     (let f = \<lfloor>x\<rfloor>; d = x - of_int f
      in if d < 1 / 2 then f
         else if d > 1 / 2 then f + 1
         else if even f then f else f + 1)"

text \<open>\<open>str\<close> of a non-negative integer, for the names of the placeholder slots.\<close>

fun string_of_nat :: "nat \<Rightarrow> string" where
  "string_of_nat n =
     (if n < 10 then [char_of (48 + n)]
      else string_of_nat (n div 10) @ [char_of (48 + n mod 10)])"

text \<open>\<open>builder_data.get('minPositions') or 0\<close> and the effective position count.\<close>

definition min_positions :: "builder_data \<Rightarrow> int" where
  "min_positions bd = (case bd_minPositions bd of None \<Rightarrow> 0 | Some m \<Rightarrow> m)"

definition effective_positions :: "builder_data \<Rightarrow> int" where
  "effective_positions bd =
     (case bd_desiredPositions bd of Some d \<Rightarrow> d | None \<Rightarrow> min_positions bd)"

text \<open>\<open>pos.get('weight', 0)\<close>\<close>

definition get_weight :: "builder_position \<Rightarrow> real" where
  "get_weight pos = (case bp_weight pos of None \<Rightarrow> 0 | Some w \<Rightarrow> w)"

text \<open>Lines 675-684.\<close>

definition current_positions_count :: "pdata \<Rightarrow> nat" where
  "current_positions_count pd =
     sum_list (map (\<lambda>(sector_name, sector). length (sd_positions sector)) (pd_sectors pd))"

definition placeholder_position :: "builder_data \<Rightarrow> builder_position option" where
  "placeholder_position bd = find bp_isPlaceholder (bd_positions bd)"

definition total_real_weight :: "builder_data \<Rightarrow> real" where
  "total_real_weight bd =
     sum_list (map get_weight (filter (\<lambda>pos. \<not> bp_isPlaceholder pos) (bd_positions bd)))"

definition real_positions_have_100_percent :: "builder_data \<Rightarrow> bool" where
  "real_positions_have_100_percent bd = (py_round (total_real_weight bd) \<ge> 100)"

text \<open>
  One unfilled slot (lines 700-707), before its target value is computed. The display key
  \<open>positionSlot\<close>, which nothing reads, is left out of the position record.
\<close>

definition placeholder_slot :: "builder_position \<Rightarrow> nat \<Rightarrow> position" where
  "placeholder_slot placeholder i =
     \<lparr>name = ''Position Slot '' @ string_of_nat (i + 1) @ '' (Unfilled)'',
      currentValue = 0,
      targetAllocation = get_weight placeholder,
      pos_identifier = None,
      investment_type = None,
      isPlaceholder = True,
      targetValue = None,
      capping = None\<rparr>"

text \<open>
  The sectors of one portfolio before the target values: those of the data, then the
  synthetic "Missing Positions" sector when lines 693-694 ask for it. The two target
  fields are filled by \<open>with_targets\<close> below.
\<close>

definition data_sector :: "string \<times> sector_data \<Rightarrow> sector_entry" where
  "data_sector = (\<lambda>(sector_name, sector).
     \<lparr>se_name = sector_name, se_positions = sd_positions sector,
      se_currentValue = sd_currentValue sector,
      se_positionCount = length (sd_positions sector),
      se_isPlaceholder = False, se_targetValue = 0, se_targetWeight = 0\<rparr>)"

definition missing_positions_sector :: "builder_position \<Rightarrow> nat \<Rightarrow> sector_entry" where
  "missing_positions_sector placeholder positions_remaining =
     \<lparr>se_name = ''Missing Positions'',
      se_positions = map (placeholder_slot placeholder) [0..<positions_remaining],
      se_currentValue = 0,
      se_positionCount = positions_remaining,
      se_isPlaceholder = True, se_targetValue = 0, se_targetWeight = 0\<rparr>"

definition missing_sectors :: "builder_data \<Rightarrow> pdata \<Rightarrow> sector_entry list" where
  "missing_sectors bd pd =
     (case placeholder_position bd of
        None \<Rightarrow> []
      | Some placeholder \<Rightarrow>
          if int (current_positions_count pd) < effective_positions bd
             \<and> \<not> real_positions_have_100_percent bd
          then [missing_positions_sector placeholder
                  (nat (effective_positions bd - int (current_positions_count pd)))]
          else [])"

text \<open>Lines 719-729: the target value of every position, then of the sector.\<close>

definition position_with_target :: "real \<Rightarrow> position \<Rightarrow> position" where
  "position_with_target portfolio_target_value pos =
     pos\<lparr>targetValue := Some ((targetAllocation pos / 100) * portfolio_target_value)\<rparr>"

definition with_targets :: "real \<Rightarrow> sector_entry \<Rightarrow> sector_entry" where
  "with_targets portfolio_target_value sector =
     (let positions = map (position_with_target portfolio_target_value) (se_positions sector);
          sector_target_value = sum_list (map get_targetValue positions)
      in sector\<lparr>se_positions := positions,
                se_targetValue := sector_target_value,
                se_targetWeight :=
                  (if portfolio_target_value > 0
                   then sector_target_value / portfolio_target_value * 100 else 0)\<rparr>)"

text \<open>
  The body of the loop of \<open>calculate_allocation_targets\<close> for one value of
  \<open>portfolio_map\<close>. The builder configuration is looked up by portfolio name, the
  portfolio weight in the first entry of \<open>target_allocations\<close> with that name.
\<close>

definition portfolio_target_weight :: "target_portfolio list \<Rightarrow> string \<Rightarrow> real" where
  "portfolio_target_weight target_allocations portfolio_name =
     (case find (\<lambda>p. tp_name p = Some portfolio_name) target_allocations of
        None \<Rightarrow> 0
      | Some target \<Rightarrow> (case tp_allocation target of None \<Rightarrow> 0 | Some a \<Rightarrow> a))"

definition get_builder_data :: "(string \<times> builder_data) list \<Rightarrow> string \<Rightarrow> builder_data" where
  "get_builder_data portfolio_builder_data portfolio_name =
     (case map_of portfolio_builder_data portfolio_name of
        None \<Rightarrow> empty_builder_data
      | Some bd \<Rightarrow> bd)"

definition allocation_target_entry ::
  "(string \<times> builder_data) list \<Rightarrow> target_portfolio list \<Rightarrow> real \<Rightarrow> pdata
     \<Rightarrow> portfolio_entry" where
  "allocation_target_entry portfolio_builder_data target_allocations total_current_value pd =
     (let portfolio_name = pd_name pd;
          weight = portfolio_target_weight target_allocations portfolio_name;
          bd = get_builder_data portfolio_builder_data portfolio_name;
          portfolio_target_value = (weight / 100) * total_current_value
      in \<lparr>pe_name = portfolio_name,
          pe_currentValue = pd_currentValue pd,
          pe_targetWeight = weight,
          pe_color = [],
          pe_sectors = map (with_targets portfolio_target_value)
                         (map data_sector (pd_sectors pd) @ missing_sectors bd pd),
          pe_minPositions = min_positions bd,
          pe_desiredPositions = bd_desiredPositions bd,
          pe_effectivePositions = effective_positions bd,
          pe_builderPositions = bd_positions bd,
          pe_builderAllocation = (case bd_allocation bd of None \<Rightarrow> 0 | Some a \<Rightarrow> a),
          pe_targetValue = portfolio_target_value,
          pe_targetAllocation_portfolio = portfolio_target_value\<rparr>)"

definition calculate_allocation_targets ::
  "(int \<times> pdata) list \<Rightarrow> (string \<times> builder_data) list \<Rightarrow> target_portfolio list \<Rightarrow> real
     \<Rightarrow> portfolio_entry list" where
  "calculate_allocation_targets portfolio_map portfolio_builder_data target_allocations
       total_current_value =
     map (\<lambda>(portfolio_id, pd).
            allocation_target_entry portfolio_builder_data target_allocations
              total_current_value pd) portfolio_map"

subsection \<open>Allocation targets with type constraints\<close>

text \<open>
  The \<open>rules\<close> argument: \<open>None\<close> is a missing or empty dict, a field \<open>None\<close> a missing key.
\<close>

record allocation_rules =
  maxPerStock :: "real option"
  maxPerETF :: "real option"
  maxPerCrypto :: "real option"

definition parse_rules :: "allocation_rules option \<Rightarrow> caps" where
  "parse_rules rules =
     (case rules of
        None \<Rightarrow> \<lparr>max_stock_pct = 2, max_etf_pct = 5, max_crypto_pct = 5\<rparr>
      | Some r \<Rightarrow>
          \<lparr>max_stock_pct = (case maxPerStock r of None \<Rightarrow> 2 | Some x \<Rightarrow> x),
           max_etf_pct = (case maxPerETF r of None \<Rightarrow> 5 | Some x \<Rightarrow> x),
           max_crypto_pct = (case maxPerCrypto r of None \<Rightarrow> 5 | Some x \<Rightarrow> x)\<rparr>)"

text \<open>
  Lines 788-800. \<open>pos.get('identifier')\<close> is true for a non-empty string. The positions of
  the sectors that are not placeholder sectors are also the ones the copy-back loop of
  lines 829-840 visits.
\<close>

definition sector_positions :: "portfolio_entry \<Rightarrow> position list" where
  "sector_positions portfolio =
     concat (map se_positions (filter (\<lambda>sector. \<not> se_isPlaceholder sector)
                                       (pe_sectors portfolio)))"

definition all_positions :: "portfolio_entry \<Rightarrow> position list" where
  "all_positions portfolio = filter (\<lambda>pos. \<not> isPlaceholder pos) (sector_positions portfolio)"

definition has_identifier :: "position \<Rightarrow> bool" where
  "has_identifier pos = (case pos_identifier pos of None \<Rightarrow> False | Some s \<Rightarrow> s \<noteq> [])"

definition valid_positions :: "portfolio_entry \<Rightarrow> position list" where
  "valid_positions portfolio =
     filter (\<lambda>pos. has_identifier pos \<and> investment_type pos \<noteq> None) (all_positions portfolio)"

text \<open>
  \<open>position_lookup = {pos['name']: pos for pos in all_positions_data}\<close>: of two positions
  with one name the later one stays.
\<close>

definition position_lookup :: "position list \<Rightarrow> string \<Rightarrow> position option" where
  "position_lookup all_positions_data = map_of (rev (map (\<lambda>pos. (name pos, pos)) all_positions_data))"

text \<open>
  Lines 833-840 for one position. When the augmented position lacks the metadata, line
  840 raises \<open>KeyError\<close>: that is \<open>copy_back_raises\<close>, which \<open>constrain_portfolio\<close> tests
  before it uses \<open>copy_back\<close>, so the value of \<open>copy_back\<close> in that case is never used.
\<close>

definition copy_back :: "(string \<Rightarrow> position option) \<Rightarrow> position \<Rightarrow> position" where
  "copy_back lookup pos =
     (case lookup (name pos) of
        None \<Rightarrow> pos
      | Some augmented \<Rightarrow>
          (case capping augmented of
             None \<Rightarrow> pos
           | Some m \<Rightarrow> pos\<lparr>capping := Some m,
                           targetValue := Some (constrained_target_value m)\<rparr>))"

definition copy_back_raises :: "(string \<Rightarrow> position option) \<Rightarrow> position \<Rightarrow> bool" where
  "copy_back_raises lookup pos =
     (case lookup (name pos) of None \<Rightarrow> False | Some augmented \<Rightarrow> capping augmented = None)"

text \<open>Lines 829-849 for one sector: placeholder sectors are left alone.\<close>

definition constrain_sector ::
  "(string \<Rightarrow> position option) \<Rightarrow> real \<Rightarrow> sector_entry \<Rightarrow> sector_entry" where
  "constrain_sector lookup portfolio_target_value sector =
     (if se_isPlaceholder sector then sector
      else
        let positions = map (copy_back lookup) (se_positions sector);
            sector_target_value = sum_list (map get_targetValue positions)
        in sector\<lparr>se_positions := positions,
                  se_targetValue := sector_target_value,
                  se_targetWeight :=
                    (if portfolio_target_value > 0
                     then sector_target_value / portfolio_target_value * 100 else 0)\<rparr>)"

text \<open>
  The body of the loop of lines 781-849 for one portfolio. The allocator mutates the
  dicts of the valid positions in place; the copy-back loop then overwrites the metadata
  of every position whose name is in the lookup, the valid ones included, so the new
  tree is the old one with \<open>copy_back\<close> applied.
\<close>

definition constrain_portfolio :: "caps \<Rightarrow> portfolio_entry \<Rightarrow> error + portfolio_entry" where
  "constrain_portfolio rules portfolio =
     (let portfolio_target_value = pe_targetValue portfolio
      in if portfolio_target_value = 0 then Inr portfolio
         else if valid_positions portfolio = [] then Inr portfolio
         else
           case apply_type_constraints_recursive (valid_positions portfolio)
                  portfolio_target_value rules 0 default_max_iterations of
             Inl e \<Rightarrow> Inl e
           | Inr (ex, all_positions_data) \<Rightarrow>
               let lookup = position_lookup all_positions_data
               in if list_ex (copy_back_raises lookup) (sector_positions portfolio)
                  then Inl (KeyError ''constrained_target_value'')
                  else Inr (portfolio\<lparr>pe_sectors :=
                              map (constrain_sector lookup portfolio_target_value)
                                (pe_sectors portfolio)\<rparr>))"

fun constrain_portfolios :: "caps \<Rightarrow> portfolio_entry list \<Rightarrow> error + portfolio_entry list" where
  "constrain_portfolios rules [] = Inr []"
| "constrain_portfolios rules (portfolio # portfolios) =
     (case constrain_portfolio rules portfolio of
        Inl e \<Rightarrow> Inl e
      | Inr portfolio' \<Rightarrow>
          (case constrain_portfolios rules portfolios of
             Inl e \<Rightarrow> Inl e
           | Inr portfolios' \<Rightarrow> Inr (portfolio' # portfolios')))"

definition calculate_allocation_targets_with_type_constraints ::
  "(int \<times> pdata) list \<Rightarrow> (string \<times> builder_data) list \<Rightarrow> target_portfolio list \<Rightarrow> real
     \<Rightarrow> allocation_rules option \<Rightarrow> error + portfolio_entry list" where
  "calculate_allocation_targets_with_type_constraints portfolio_map portfolio_builder_data
       target_allocations total_current_value rules =
     constrain_portfolios (parse_rules rules)
       (calculate_allocation_targets portfolio_map portfolio_builder_data target_allocations
          total_current_value)"


text \<open>Every position dict of \<open>portfolio_map\<close>.\<close>

definition input_positions :: "(int \<times> pdata) list \<Rightarrow> position list" where
  "input_positions portfolio_map =
     concat (map (\<lambda>(portfolio_id, pd).
                    concat (map (\<lambda>(sector_name, sector). sd_positions sector) (pd_sectors pd)))
               portfolio_map)"

section \<open>Cash deployment: properties\<close>

text \<open>
  C10. Whatever the holdings, the target allocation map and the investment amount, a mode
  string other than "proportional", "target_weights" and "equal_weight" makes
  \<open>calculate_rebalancing\<close> raise \<open>ValueError\<close>; it returns no list.
\<close>

theorem calculate_rebalancing_unknown_mode:
  assumes "mode \<noteq> ''proportional''" and "mode \<noteq> ''target_weights''"
    and "mode \<noteq> ''equal_weight''"
  shows "calculate_rebalancing portfolio_data target_allocations investment_amount mode
         = Inl (ValueError (''Unknown allocation mode: '' @ mode))"
  using assms by (simp add: calculate_rebalancing_def)

theorem calculate_rebalancing_unknown_mode_witness:
  "''sell_all'' \<noteq> ''proportional'' \<and> ''sell_all'' \<noteq> ''target_weights''
   \<and> ''sell_all'' \<noteq> ''equal_weight''
   \<and> calculate_rebalancing
        [\<lparr>c_id = ''1'', c_name = ''X'', c_identifier = ''X1'',
          c_price_eur = Some 10, c_current_value = Some 100\<rparr>]
        [(''1'', 100)] 50 ''sell_all''
      = Inl (ValueError ''Unknown allocation mode: sell_all'')"
  using calculate_rebalancing_unknown_mode
    [of "''sell_all''"
        "[\<lparr>c_id = ''1'', c_name = ''X'', c_identifier = ''X1'',
           c_price_eur = Some 10, c_current_value = Some 100\<rparr>]"
        "[(''1'', 100)]" 50]
  by simp

section \<open>Type-constrained allocator: lemmas\<close>

lemma get_is_capped_cap_position:
  "get_is_capped pos \<Longrightarrow> cap_position rules v pos = pos"
  by (auto simp: get_is_capped_def cap_position_def split: option.splits)

lemma cap_position_mono:
  "get_is_capped pos \<Longrightarrow> get_is_capped (cap_position rules v pos)"
  by (simp add: get_is_capped_cap_position)

lemma has_metadata_cap_position [simp]:
  "has_metadata (cap_position rules v pos) = has_metadata pos"
  by (auto simp: has_metadata_def cap_position_def split: option.splits)

lemma has_metadata_set_constrained [simp]:
  "has_metadata (set_constrained x pos) = has_metadata pos"
  by (simp add: has_metadata_def set_constrained_def)

lemma has_metadata_init [simp]: "has_metadata (init_metadata pos)"
  by (simp add: has_metadata_def init_metadata_def)

lemma list_ex_no_metadata:
  "list_ex (\<lambda>pos. capping pos = None) positions \<longleftrightarrow> \<not> (\<forall>pos\<in>set positions. has_metadata pos)"
  by (auto simp: list_ex_iff has_metadata_def)

lemma get_is_capped_set_constrained [simp]:
  "get_is_capped (set_constrained x pos) = get_is_capped pos"
  by (simp add: set_constrained_def get_is_capped_def split: option.splits)

lemma unconstrained_value_set_constrained [simp]:
  "unconstrained_value (set_constrained x pos) = unconstrained_value pos"
  by (simp add: set_constrained_def unconstrained_value_def split: option.splits)

lemma constrained_value_set_constrained:
  "has_metadata pos \<Longrightarrow> constrained_value (set_constrained x pos) = x"
  by (auto simp: has_metadata_def set_constrained_def constrained_value_def split: option.splits)

lemma investment_type_set_constrained [simp]:
  "investment_type (set_constrained x pos) = investment_type pos"
  by (simp add: set_constrained_def)

lemma redistribute_eq:
  "redistribute v positions =
     (if uncapped_positions positions \<noteq> [] \<and> 0 < v - capped_value positions
      then map (\<lambda>pos. if get_is_capped pos then pos
                       else set_constrained (share_of v positions pos) pos) positions
      else positions)"
  by (simp add: redistribute_def share_of_def Let_def)

lemma map_get_is_capped_redistribute [simp]:
  "map get_is_capped (redistribute v positions) = map get_is_capped positions"
  by (simp add: redistribute_eq)

lemma filter_map_same:
  "(\<And>x. x \<in> set xs \<Longrightarrow> P (f x) = P x) \<Longrightarrow> filter P (map f xs) = map f (filter P xs)"
  by (induction xs) auto

lemma filter_capped_reshare:
  "filter get_is_capped (map (\<lambda>pos. if get_is_capped pos then pos
                       else set_constrained (g pos) pos) xs) = filter get_is_capped xs"
  by (induction xs) auto

lemma filter_uncapped_reshare:
  "filter (\<lambda>pos. \<not> get_is_capped pos) (map (\<lambda>pos. if get_is_capped pos then pos
                       else set_constrained (g pos) pos) xs)
   = map (\<lambda>pos. set_constrained (g pos) pos) (filter (\<lambda>pos. \<not> get_is_capped pos) xs)"
  by (induction xs) auto

lemma capped_positions_redistribute [simp]:
  "capped_positions (redistribute v positions) = capped_positions positions"
  by (simp add: redistribute_eq capped_positions_def filter_capped_reshare)

lemma capped_value_redistribute [simp]:
  "capped_value (redistribute v positions) = capped_value positions"
  by (simp add: capped_value_def)

lemma uncapped_positions_redistribute:
  "uncapped_positions (redistribute v positions) =
     (if uncapped_positions positions \<noteq> [] \<and> 0 < v - capped_value positions
      then map (\<lambda>pos. set_constrained (share_of v positions pos) pos) (uncapped_positions positions)
      else uncapped_positions positions)"
  by (simp add: redistribute_eq uncapped_positions_def filter_uncapped_reshare)

lemma uncapped_positions_redistribute_Nil [simp]:
  "uncapped_positions (redistribute v positions) = [] \<longleftrightarrow> uncapped_positions positions = []"
  by (simp add: uncapped_positions_redistribute)





lemma not_newly_capped_cap_position:
  "\<not> newly_capped rules v pos \<Longrightarrow> cap_position rules v pos = pos"
  by (auto simp: newly_capped_def cap_position_def cap_metadata_def Let_def
      split: option.splits if_splits)

lemma not_any_capped_map_cap_position:
  "\<not> any_capped_this_iteration rules v positions
   \<Longrightarrow> map (cap_position rules v) positions = positions"
  by (induction positions)
     (auto simp: any_capped_this_iteration_def not_newly_capped_cap_position)

lemma atcr_unfold:
  assumes "iteration < max_iterations" and "0 < v"
    and "qs = (if iteration = 0 then map init_metadata positions else positions)"
  shows "apply_type_constraints_recursive positions v rules iteration max_iterations =
     (if uncapped_positions qs = [] then Inr (AllCapped, qs)
      else if v - capped_value qs \<le> 0 then Inr (NoAvailableValue, qs)
      else if list_ex (\<lambda>pos. capping pos = None) qs
      then Inl (KeyError ''constrained_target_value'')
      else if any_capped_this_iteration rules v qs
      then apply_type_constraints_recursive
             (redistribute v (map (cap_position rules v) qs))
             v rules (iteration + 1) max_iterations
      else Inr (Converged, qs))"
  using assms(1,2) unfolding assms(3)
  by (subst apply_type_constraints_recursive.simps) (simp add: Let_def)

lemma atcr_ceiling:
  "max_iterations \<le> iteration
   \<Longrightarrow> apply_type_constraints_recursive positions v rules iteration max_iterations
       = Inr (MaxIterations, positions)"
  by (subst apply_type_constraints_recursive.simps) simp

lemma atcr_inv:
  assumes "apply_type_constraints_recursive ps v rules it mx = Inr (e, ps')"
    and "0 < v" and "0 \<le> it" and "it < mx"
    and "I (if it = 0 then map init_metadata ps else ps)"
    and step: "\<And>qs. I qs \<Longrightarrow> uncapped_positions qs \<noteq> [] \<Longrightarrow> 0 < v - capped_value qs
         \<Longrightarrow> \<forall>pos\<in>set qs. has_metadata pos
         \<Longrightarrow> any_capped_this_iteration rules v qs
         \<Longrightarrow> I (redistribute v (map (cap_position rules v) qs))"
  shows "I ps'
     \<and> (e = AllCapped \<longrightarrow> uncapped_positions ps' = [])
     \<and> (e = NoAvailableValue \<longrightarrow> uncapped_positions ps' \<noteq> [] \<and> v - capped_value ps' \<le> 0)
     \<and> (e = Converged \<longrightarrow> uncapped_positions ps' \<noteq> [] \<and> 0 < v - capped_value ps'
            \<and> (\<forall>pos\<in>set ps'. has_metadata pos)
            \<and> \<not> any_capped_this_iteration rules v ps')
     \<and> e \<noteq> ZeroPortfolioValue"
  using assms
proof (induction ps v rules it mx rule: apply_type_constraints_recursive.induct)
  case (1 positions v rules iteration max_iterations)
  define qs where "qs = (if iteration = 0 then map init_metadata positions else positions)"
  note pos = \<open>0 < v\<close>
  note unf = atcr_unfold [OF "1.prems"(4) pos qs_def, of rules]
  note step = "1.prems"(6)
  have Iqs: "I qs" using "1.prems"(5) by (simp add: qs_def)
  show ?case
  proof (cases "uncapped_positions qs \<noteq> [] \<and> 0 < v - capped_value qs
                \<and> \<not> list_ex (\<lambda>pos. capping pos = None) qs
                \<and> any_capped_this_iteration rules v qs")
    case False
    then consider (a) "uncapped_positions qs = []"
      | (b) "uncapped_positions qs \<noteq> []" "v - capped_value qs \<le> 0"
      | (c) "uncapped_positions qs \<noteq> []" "0 < v - capped_value qs"
            "list_ex (\<lambda>pos. capping pos = None) qs"
      | (d) "uncapped_positions qs \<noteq> []" "0 < v - capped_value qs"
            "\<not> list_ex (\<lambda>pos. capping pos = None) qs"
            "\<not> any_capped_this_iteration rules v qs"
      by fastforce
    then show ?thesis
    proof cases
      case a
      with "1.prems"(1) have "e = AllCapped" "ps' = qs" by (simp_all add: unf)
      with a Iqs show ?thesis by simp
    next
      case b
      with "1.prems"(1) have "e = NoAvailableValue" "ps' = qs" by (simp_all add: unf)
      with b Iqs show ?thesis by simp
    next
      case c
      with "1.prems"(1) show ?thesis by (simp add: unf)
    next
      case d
      with "1.prems"(1) have "e = Converged" "ps' = qs" by (simp_all add: unf)
      with d Iqs show ?thesis by (simp add: list_ex_no_metadata)
    qed
  next
    case True
    then have meta: "\<forall>pos\<in>set qs. has_metadata pos" by (simp add: list_ex_no_metadata)
    define rs where "rs = redistribute v (map (cap_position rules v) qs)"
    have Irs: "I rs" unfolding rs_def using step Iqs True meta by blast
    from "1.prems"(1) True
    have run': "apply_type_constraints_recursive rs v rules (iteration + 1) max_iterations
                = Inr (e, ps')"
      by (simp add: unf rs_def)
    show ?thesis
    proof (cases "iteration + 1 < max_iterations")
      case False
      with run' have "e = MaxIterations" "ps' = rs" by (simp_all add: atcr_ceiling)
      with Irs show ?thesis by simp
    next
      case lt: True
      have I': "I (if iteration + 1 = 0 then map init_metadata rs else rs)"
        using Irs "1.prems"(3) by simp
      have "\<not> max_iterations \<le> iteration" "\<not> v \<le> 0"
        using "1.prems"(4) pos by simp_all
      moreover have "uncapped_positions qs \<noteq> []" "\<not> v - capped_value qs \<le> 0"
        "\<not> list_ex (\<lambda>pos. capping pos = None) qs" "any_capped_this_iteration rules v qs"
        using True by simp_all
      moreover note run'
      moreover have "0 \<le> iteration + 1" using "1.prems"(3) by simp
      ultimately show ?thesis
        using lt I' step unfolding rs_def
        by (rule "1.IH" [OF _ _ qs_def _ _ _ _ _ pos])
    qed
  qed
qed

lemma investment_type_cap_position [simp]:
  "investment_type (cap_position rules v pos) = investment_type pos"
  by (simp add: cap_position_def split: option.splits)

lemma at_cap_within_cap: "at_cap rules v pos \<Longrightarrow> within_cap rules v pos"
  by (auto simp: at_cap_def within_cap_def split: option.splits)

lemma cap_position_newly_at_cap:
  "\<not> get_is_capped pos \<Longrightarrow> get_is_capped (cap_position rules v pos)
   \<Longrightarrow> at_cap rules v (cap_position rules v pos)"
  by (auto simp: get_is_capped_def cap_position_def cap_metadata_def at_cap_def
      constrained_value_def Let_def split: option.splits if_splits)

lemma cap_position_uncapped_within:
  "0 < v \<Longrightarrow> has_metadata pos \<Longrightarrow> \<not> get_is_capped (cap_position rules v pos)
   \<Longrightarrow> within_cap rules v (cap_position rules v pos)"
  by (auto simp: has_metadata_def get_is_capped_def cap_position_def cap_metadata_def
      within_cap_def constrained_value_def Let_def field_simps split: option.splits if_splits)

lemma redistribute_capped_mem:
  "pos \<in> set (redistribute v positions) \<Longrightarrow> get_is_capped pos \<Longrightarrow> pos \<in> set positions"
  by (auto simp: redistribute_eq split: if_splits)

lemma redistribute_no_available:
  "v - capped_value positions \<le> 0 \<Longrightarrow> redistribute v positions = positions"
  by (simp add: redistribute_eq)

lemma cap_invariant_init: "0 < v \<Longrightarrow> cap_invariant rules v (map init_metadata positions)"
proof -
  have "capped_positions (map init_metadata positions) = []"
    by (induction positions) (auto simp: capped_positions_def init_metadata_def get_is_capped_def)
  then show "0 < v \<Longrightarrow> ?thesis"
    by (auto simp: cap_invariant_def capped_value_def init_metadata_def get_is_capped_def)
qed

lemma cap_invariant_step:
  assumes inv: "cap_invariant rules v qs" and "0 < v"
    and meta: "\<forall>pos\<in>set qs. has_metadata pos"
  shows "cap_invariant rules v (redistribute v (map (cap_position rules v) qs))"
proof -
  define cs where "cs = map (cap_position rules v) qs"
  have capped: "at_cap rules v pos" if "pos \<in> set cs" "get_is_capped pos" for pos
  proof -
    from that(1) obtain q where q: "q \<in> set qs" "pos = cap_position rules v q"
      by (auto simp: cs_def)
    show ?thesis
    proof (cases "get_is_capped q")
      case True
      with q inv show ?thesis by (simp add: get_is_capped_cap_position cap_invariant_def)
    next
      case False
      with q that(2) show ?thesis by (simp add: cap_position_newly_at_cap)
    qed
  qed
  have uncapped: "within_cap rules v pos" if "pos \<in> set cs" "\<not> get_is_capped pos" for pos
  proof -
    from that(1) obtain q where q: "q \<in> set qs" "pos = cap_position rules v q"
      by (auto simp: cs_def)
    with meta that(2) \<open>0 < v\<close> show ?thesis
      by (simp add: cap_position_uncapped_within)
  qed
  show ?thesis
    unfolding cap_invariant_def cs_def [symmetric]
  proof (intro conjI ballI impI)
    fix pos assume "pos \<in> set (redistribute v cs)" "get_is_capped pos"
    then show "at_cap rules v pos" using capped redistribute_capped_mem by blast
  next
    fix pos assume "v - capped_value (redistribute v cs) \<le> 0"
      "pos \<in> set (redistribute v cs)" "\<not> get_is_capped pos"
    then show "within_cap rules v pos" using uncapped
      by (simp add: redistribute_no_available)
  qed
qed

lemma atcr_within_cap:
  assumes run: "apply_type_constraints_recursive positions v rules 0 mx = Inr (e, result)"
    and e: "e = Converged \<or> e = AllCapped \<or> e = NoAvailableValue"
    and mem: "pos \<in> set result"
  shows "within_cap rules v pos"
proof -
  have mx: "0 < mx"
  proof (rule ccontr)
    assume "\<not> 0 < mx"
    with run e show False by (auto simp: atcr_ceiling)
  qed
  have v: "0 < v"
  proof (rule ccontr)
    assume "\<not> 0 < v"
    with run e mx show False
      by (subst (asm) apply_type_constraints_recursive.simps) auto
  qed
  have inv: "cap_invariant rules v result
     \<and> (e = AllCapped \<longrightarrow> uncapped_positions result = [])
     \<and> (e = NoAvailableValue \<longrightarrow> uncapped_positions result \<noteq> [] \<and> v - capped_value result \<le> 0)
     \<and> (e = Converged \<longrightarrow> uncapped_positions result \<noteq> [] \<and> 0 < v - capped_value result
            \<and> (\<forall>pos\<in>set result. has_metadata pos)
            \<and> \<not> any_capped_this_iteration rules v result)
     \<and> e \<noteq> ZeroPortfolioValue"
    by (rule atcr_inv [OF run v _ mx]) (simp_all add: cap_invariant_init v cap_invariant_step)
  show ?thesis
  proof (cases "get_is_capped pos")
    case True
    with inv mem show ?thesis by (auto simp: cap_invariant_def at_cap_within_cap)
  next
    case False
    from e show ?thesis
    proof (elim disjE)
      assume c: "e = Converged"
      with inv have "map (cap_position rules v) result = result"
        by (simp add: not_any_capped_map_cap_position)
      with mem have "cap_position rules v pos = pos"
        by (metis map_eq_conv map_ident)
      with cap_position_uncapped_within [of v pos rules] v inv c mem False
      show ?thesis by simp
    next
      assume "e = AllCapped"
      with inv mem False show ?thesis by (auto simp: uncapped_positions_def filter_empty_conv)
    next
      assume "e = NoAvailableValue"
      with inv mem False show ?thesis by (auto simp: cap_invariant_def)
    qed
  qed
qed

lemma capped_positions_init [simp]: "capped_positions (map init_metadata positions) = []"
  by (induction positions) (auto simp: capped_positions_def init_metadata_def get_is_capped_def)

lemma capped_value_init [simp]: "capped_value (map init_metadata positions) = 0"
  by (simp add: capped_value_def)

lemma uncapped_positions_init [simp]:
  "uncapped_positions (map init_metadata positions) = map init_metadata positions"
  by (induction positions) (auto simp: uncapped_positions_def init_metadata_def get_is_capped_def)

lemma meta_step:
  "\<forall>pos\<in>set qs. has_metadata pos
   \<Longrightarrow> \<forall>pos\<in>set (redistribute v (map (cap_position rules v) qs)). has_metadata pos"
  by (auto simp: redistribute_eq)

text \<open>From iteration 0 the recursion never raises.\<close>

lemma atcr_no_error_aux:
  "0 \<le> it \<Longrightarrow> it = 0 \<or> (\<forall>pos\<in>set ps. has_metadata pos)
   \<Longrightarrow> \<exists>e r. apply_type_constraints_recursive ps v rules it mx = Inr (e, r)"
proof (induction ps v rules it mx rule: apply_type_constraints_recursive.induct)
  case (1 positions v rules iteration max_iterations)
  define qs where "qs = (if iteration = 0 then map init_metadata positions else positions)"
  have meta: "\<forall>pos\<in>set qs. has_metadata pos"
    using "1.prems"(2) by (auto simp: qs_def)
  then have nex: "\<not> list_ex (\<lambda>pos. capping pos = None) qs" by (simp add: list_ex_no_metadata)
  show ?case
  proof (cases "max_iterations \<le> iteration \<or> v \<le> 0")
    case True
    then show ?thesis by (subst apply_type_constraints_recursive.simps) auto
  next
    case False
    then have lt: "iteration < max_iterations" and v: "0 < v" by simp_all
    note unf = atcr_unfold [OF lt v qs_def, of rules]
    show ?thesis
    proof (cases "uncapped_positions qs \<noteq> [] \<and> 0 < v - capped_value qs
                  \<and> any_capped_this_iteration rules v qs")
      case False
      with nex show ?thesis unfolding unf by auto
    next
      case True
      have "\<exists>e r. apply_type_constraints_recursive
              (redistribute v (map (cap_position rules v) qs)) v rules (iteration + 1)
              max_iterations = Inr (e, r)"
        using "1.prems"(1) meta_step [OF meta] True nex lt v
        by (intro "1.IH" [OF _ _ qs_def]) auto
      with True nex show ?thesis unfolding unf by simp
    qed
  qed
qed

lemma atcr_no_error:
  "\<exists>e r. apply_type_constraints_recursive ps v rules 0 mx = Inr (e, r)"
  by (rule atcr_no_error_aux) simp_all





text \<open>After a pass that redistributed, the constrained values sum to the target value.\<close>

lemma get_is_capped_init [simp]: "\<not> get_is_capped (init_metadata pos)"
  by (simp add: init_metadata_def get_is_capped_def)




lemma unconstrained_value_cap_position [simp]:
  "unconstrained_value (cap_position rules v pos) = unconstrained_value pos"
  by (auto simp: unconstrained_value_def cap_position_def cap_metadata_def Let_def
      split: option.splits)

lemma uncapped_after_cap_pass:
  assumes "uncapped_positions (map (cap_position rules v) qs) \<noteq> []"
  shows "uncapped_positions qs \<noteq> []"
proof -
  from assms obtain q where "q \<in> set qs" "\<not> get_is_capped (cap_position rules v q)"
    by (auto simp: uncapped_positions_def filter_empty_conv)
  then have "q \<in> set qs" "\<not> get_is_capped q"
    using cap_position_mono by blast+
  then show ?thesis by (auto simp: uncapped_positions_def filter_empty_conv)
qed

section \<open>Type-constrained allocator: properties\<close>

text \<open>
  C1. Cap respected: when the allocator, started at iteration 0, stops by any exit other
  than the iteration ceiling and the zero-value exit (convergence, all positions capped, or
  no available value), every position of the result whose investment type has a cap rule
  has a constrained target value of at most \<open>cap_pct / 100\<close> times the portfolio target
  value.
\<close>

theorem cap_respected:
  assumes "apply_type_constraints_recursive positions v rules 0 max_iterations = Inr (e, result)"
    and "e = Converged \<or> e = AllCapped \<or> e = NoAvailableValue"
    and "pos \<in> set result"
    and "cap_rule rules (investment_type pos) = Some (cap_pct, rule)"
  shows "constrained_value pos \<le> (cap_pct / 100) * v"
  using atcr_within_cap [OF assms(1,2,3)] assms(4) by (simp add: within_cap_def)

theorem cap_respected_witness:
  "apply_type_constraints_recursive
     [\<lparr>name = ''A'', currentValue = 0, targetAllocation = 0,
       pos_identifier = Some ''A'', investment_type = Some ''Stock'',
       isPlaceholder = False, targetValue = Some 9000,
       capping = None\<rparr>,
      \<lparr>name = ''B'', currentValue = 0, targetAllocation = 0,
       pos_identifier = Some ''B'', investment_type = Some ''Stock'',
       isPlaceholder = False, targetValue = Some 1000,
       capping = None\<rparr>]
     10000 \<lparr>max_stock_pct = 50, max_etf_pct = 50, max_crypto_pct = 50\<rparr> 0 100
   = Inr (Converged,
     [\<lparr>name = ''A'', currentValue = 0, targetAllocation = 0,
       pos_identifier = Some ''A'', investment_type = Some ''Stock'',
       isPlaceholder = False, targetValue = Some 9000,
       capping = Some \<lparr>unconstrained_target_value = 9000, constrained_target_value = 5000,
                     is_capped = True, applicable_rule = Some ''maxPerStock''\<rparr>\<rparr>,
      \<lparr>name = ''B'', currentValue = 0, targetAllocation = 0,
       pos_identifier = Some ''B'', investment_type = Some ''Stock'',
       isPlaceholder = False, targetValue = Some 1000,
       capping = Some \<lparr>unconstrained_target_value = 1000, constrained_target_value = 5000,
                     is_capped = False, applicable_rule = None\<rparr>\<rparr>])
   \<and> constrained_value
       (\<lparr>name = ''A'', currentValue = 0, targetAllocation = 0,
       pos_identifier = Some ''A'', investment_type = Some ''Stock'',
       isPlaceholder = False, targetValue = Some 9000,
       capping = Some \<lparr>unconstrained_target_value = 9000, constrained_target_value = 5000,
                     is_capped = True, applicable_rule = Some ''maxPerStock''\<rparr>\<rparr>)
     \<le> (50 / 100) * 10000"
proof -
  have run: "apply_type_constraints_recursive
     [\<lparr>name = ''A'', currentValue = 0, targetAllocation = 0,
       pos_identifier = Some ''A'', investment_type = Some ''Stock'',
       isPlaceholder = False, targetValue = Some 9000,
       capping = None\<rparr>,
      \<lparr>name = ''B'', currentValue = 0, targetAllocation = 0,
       pos_identifier = Some ''B'', investment_type = Some ''Stock'',
       isPlaceholder = False, targetValue = Some 1000,
       capping = None\<rparr>]
     10000 \<lparr>max_stock_pct = 50, max_etf_pct = 50, max_crypto_pct = 50\<rparr> 0 100
   = Inr (Converged,
     [\<lparr>name = ''A'', currentValue = 0, targetAllocation = 0,
       pos_identifier = Some ''A'', investment_type = Some ''Stock'',
       isPlaceholder = False, targetValue = Some 9000,
       capping = Some \<lparr>unconstrained_target_value = 9000, constrained_target_value = 5000,
                     is_capped = True, applicable_rule = Some ''maxPerStock''\<rparr>\<rparr>,
      \<lparr>name = ''B'', currentValue = 0, targetAllocation = 0,
       pos_identifier = Some ''B'', investment_type = Some ''Stock'',
       isPlaceholder = False, targetValue = Some 1000,
       capping = Some \<lparr>unconstrained_target_value = 1000, constrained_target_value = 5000,
                     is_capped = False, applicable_rule = None\<rparr>\<rparr>])"
    by code_simp
  show ?thesis
    using run cap_respected [OF run, of
      "\<lparr>name = ''A'', currentValue = 0, targetAllocation = 0,
       pos_identifier = Some ''A'', investment_type = Some ''Stock'',
       isPlaceholder = False, targetValue = Some 9000,
       capping = Some \<lparr>unconstrained_target_value = 9000, constrained_target_value = 5000,
                     is_capped = True, applicable_rule = Some ''maxPerStock''\<rparr>\<rparr>"
      50 "''maxPerStock''"]
    by (simp add: cap_rule_def)
qed

section \<open>Running the allocator on its own output: lemmas and properties\<close>
















section \<open>Cash deployment and validation: scenarios\<close>

text \<open>
  C8, as amended. Scenario D in target-weights mode: X holds 8000 with target 0\%, Y holds
  0 at price 50 with target 100\%, and 2000 is invested, so the new total is 10000.
  Whatever the price of X (or without one), the result holds no recommendation for X
  (its gap \<open>max 0 (0 - 8000)\<close> is 0, and only positive amounts are recommended) and one
  recommendation for Y with \<open>amount_to_buy = 10000\<close>, the whole gap to 100\% of the new
  total, and \<open>shares_to_buy = 200\<close>. The amount is not limited by the 2000 invested.
\<close>

theorem scenario_D_target_weights:
  "calculate_rebalancing
     [\<lparr>c_id = ''X'', c_name = ''X'', c_identifier = ''X'',
       c_price_eur = price_X, c_current_value = Some 8000\<rparr>,
      \<lparr>c_id = ''Y'', c_name = ''Y'', c_identifier = ''Y'',
       c_price_eur = Some 50, c_current_value = Some 0\<rparr>]
     [(''X'', 0), (''Y'', 100)] 2000 ''target_weights''
   = Inr [\<lparr>company_name = ''Y'', r_identifier = ''Y'', current_value = 0,
           target_value = 10000, amount_to_buy = 10000, shares_to_buy = 200,
           current_price = 50\<rparr>]"
  by (cases price_X)
     (simp_all add: calculate_rebalancing_def calculate_target_weights_def priced_company_def
        find_company_def get_current_value_def Let_def)

text \<open>
  C8 as stated fails: with X priced at 100, the code recommends buying 10000 of Y, that is
  200 shares, where the claim expects 2000 and 40 shares.
\<close>

theorem scenario_D_counterexample:
  "calculate_rebalancing
     [\<lparr>c_id = ''X'', c_name = ''X'', c_identifier = ''X'',
       c_price_eur = Some 100, c_current_value = Some 8000\<rparr>,
      \<lparr>c_id = ''Y'', c_name = ''Y'', c_identifier = ''Y'',
       c_price_eur = Some 50, c_current_value = Some 0\<rparr>]
     [(''X'', 0), (''Y'', 100)] 2000 ''target_weights''
   = Inr [\<lparr>company_name = ''Y'', r_identifier = ''Y'', current_value = 0,
           target_value = 10000, amount_to_buy = 10000, shares_to_buy = 200,
           current_price = 50\<rparr>]
   \<and> (10000::real) \<noteq> 2000 \<and> (200::real) \<noteq> 40"
  by (simp add: calculate_rebalancing_def calculate_target_weights_def priced_company_def
      find_company_def get_current_value_def Let_def)

text \<open>
  C9. The allocation map \<open>{1: 60, 2: 40}\<close> sums to exactly 100, yet under the default rules
  \<open>validate_allocations\<close> reports failure, because 60 exceeds \<open>max_stock_percentage = 5\<close>:
  the second loop of the function rejects maps that pass the sum test.
\<close>

theorem validate_allocations_rejects_valid_sum:
  "\<bar>sum_list (map snd [(''1'', 60), (''2'', 40 :: real)]) - 100\<bar> \<le> 1 / 100
   \<and> validate_allocations default_max_stock_percentage [(''1'', 60), (''2'', 40)]
       = (False, Some (StockExceedsMax 60 5))"
  by (simp add: validate_allocations_def default_max_stock_percentage_def)

section \<open>Unconstrained target allocator: lemmas and properties\<close>

lemma py_round_bounds: "\<lfloor>x\<rfloor> \<le> py_round x" "py_round x \<le> \<lfloor>x\<rfloor> + 1"
  by (simp_all add: py_round_def Let_def)

lemma py_round_less_100: "py_round x < 100 \<longleftrightarrow> x < 995 / 10"
proof
  assume a: "py_round x < 100"
  show "x < 995 / 10"
  proof (rule ccontr)
    assume "\<not> x < 995 / 10"
    then have x: "995 / 10 \<le> x" by simp
    then have f: "99 \<le> \<lfloor>x\<rfloor>" by linarith
    show False
    proof (cases "\<lfloor>x\<rfloor> = 99")
      case True
      then have "x - of_int \<lfloor>x\<rfloor> \<ge> 1 / 2" using x by simp
      with True have "py_round x = 100" by (simp add: py_round_def Let_def)
      with a show False by simp
    next
      case False
      with f have "100 \<le> \<lfloor>x\<rfloor>" by linarith
      with py_round_bounds(1) [of x] a show False by linarith
    qed
  qed
next
  assume x: "x < 995 / 10"
  then have f: "\<lfloor>x\<rfloor> \<le> 99" by linarith
  show "py_round x < 100"
  proof (cases "\<lfloor>x\<rfloor> = 99")
    case True
    then have "x - of_int \<lfloor>x\<rfloor> < 1 / 2" using x by simp
    with True show ?thesis by (simp add: py_round_def Let_def)
  next
    case False
    with f have "\<lfloor>x\<rfloor> \<le> 98" by linarith
    with py_round_bounds(2) [of x] show ?thesis by linarith
  qed
qed

lemma missing_sectors_cases:
  "missing_sectors bd pd =
     (case placeholder_position bd of
        None \<Rightarrow> []
      | Some placeholder \<Rightarrow>
          if int (current_positions_count pd) < effective_positions bd
             \<and> total_real_weight bd < 995 / 10
          then [missing_positions_sector placeholder
                  (nat (effective_positions bd - int (current_positions_count pd)))]
          else [])"
  by (simp add: missing_sectors_def real_positions_have_100_percent_def py_round_less_100
      not_le split: option.splits)

lemma with_targets_fields [simp]:
  "se_name (with_targets v sector) = se_name sector"
  "se_isPlaceholder (with_targets v sector) = se_isPlaceholder sector"
  "se_currentValue (with_targets v sector) = se_currentValue sector"
  "se_positionCount (with_targets v sector) = se_positionCount sector"
  "se_positions (with_targets v sector) = map (position_with_target v) (se_positions sector)"
  by (simp_all add: with_targets_def Let_def)

lemma position_with_target_fields [simp]:
  "name (position_with_target v pos) = name pos"
  "isPlaceholder (position_with_target v pos) = isPlaceholder pos"
  "currentValue (position_with_target v pos) = currentValue pos"
  "targetAllocation (position_with_target v pos) = targetAllocation pos"
  "pos_identifier (position_with_target v pos) = pos_identifier pos"
  "investment_type (position_with_target v pos) = investment_type pos"
  "capping (position_with_target v pos) = capping pos"
  "targetValue (position_with_target v pos) = Some ((targetAllocation pos / 100) * v)"
  by (simp_all add: position_with_target_def)

lemma pe_sectors_entry:
  "pe_sectors (allocation_target_entry portfolio_builder_data target_allocations
      total_current_value pd)
   = map (with_targets
            ((portfolio_target_weight target_allocations (pd_name pd) / 100) * total_current_value))
       (map data_sector (pd_sectors pd)
        @ missing_sectors (get_builder_data portfolio_builder_data (pd_name pd)) pd)"
  by (simp add: allocation_target_entry_def Let_def)

lemma data_sector_fields [simp]:
  "se_name (data_sector x) = fst x"
  "se_isPlaceholder (data_sector x) = False"
  "se_positions (data_sector x) = sd_positions (snd x)"
  by (simp_all add: data_sector_def split_beta)

lemma missing_positions_sector_fields [simp]:
  "se_name (missing_positions_sector placeholder n) = ''Missing Positions''"
  "se_isPlaceholder (missing_positions_sector placeholder n) = True"
  "se_positions (missing_positions_sector placeholder n)
     = map (placeholder_slot placeholder) [0..<n]"
  by (simp_all add: missing_positions_sector_def)

lemma placeholder_slot_fields [simp]:
  "isPlaceholder (placeholder_slot placeholder i)"
  "currentValue (placeholder_slot placeholder i) = 0"
  "targetAllocation (placeholder_slot placeholder i) = get_weight placeholder"
  "pos_identifier (placeholder_slot placeholder i) = None"
  "investment_type (placeholder_slot placeholder i) = None"
  "capping (placeholder_slot placeholder i) = None"
  by (simp_all add: placeholder_slot_def)

text \<open>
  C7, as amended. For one portfolio of the data, the unconstrained target allocator
  appends a sector "Missing Positions" after the sectors of the data exactly when the
  builder configuration of that name declares a placeholder entry, the number of current
  positions is strictly below the effective position count (\<open>desiredPositions\<close> when set,
  else \<open>minPositions\<close>), and the sum of the non-placeholder weights rounds to less than
  100, that is, lies strictly below 99.5. The sector then holds exactly
  effective positions minus current positions placeholder positions, each with current
  value 0 and the placeholder's weight as target allocation. Otherwise the sectors are
  those of the data and none is a placeholder sector.
\<close>

theorem missing_positions_placeholders:
  "(if placeholder_position (get_builder_data portfolio_builder_data (pd_name pd)) \<noteq> None
       \<and> int (current_positions_count pd)
           < effective_positions (get_builder_data portfolio_builder_data (pd_name pd))
       \<and> total_real_weight (get_builder_data portfolio_builder_data (pd_name pd)) < 995 / 10
    then \<exists>placeholder missing.
           placeholder_position (get_builder_data portfolio_builder_data (pd_name pd))
             = Some placeholder
           \<and> map se_name (pe_sectors (allocation_target_entry portfolio_builder_data
                 target_allocations total_current_value pd))
               = map fst (pd_sectors pd) @ [''Missing Positions'']
           \<and> map se_isPlaceholder (pe_sectors (allocation_target_entry portfolio_builder_data
                 target_allocations total_current_value pd))
               = map (\<lambda>sector. False) (pd_sectors pd) @ [True]
           \<and> last (pe_sectors (allocation_target_entry portfolio_builder_data
                 target_allocations total_current_value pd)) = missing
           \<and> int (length (se_positions missing))
               = effective_positions (get_builder_data portfolio_builder_data (pd_name pd))
                 - int (current_positions_count pd)
           \<and> (\<forall>pos\<in>set (se_positions missing).
                 isPlaceholder pos \<and> currentValue pos = 0
                 \<and> targetAllocation pos = get_weight placeholder)
    else map se_name (pe_sectors (allocation_target_entry portfolio_builder_data
                 target_allocations total_current_value pd))
           = map fst (pd_sectors pd)
         \<and> map se_isPlaceholder (pe_sectors (allocation_target_entry portfolio_builder_data
                 target_allocations total_current_value pd))
           = map (\<lambda>sector. False) (pd_sectors pd))"
proof (cases "placeholder_position (get_builder_data portfolio_builder_data (pd_name pd))")
  case None
  then show ?thesis
    by (simp add: pe_sectors_entry missing_sectors_cases comp_def)
next
  case (Some placeholder)
  show ?thesis
  proof (cases "int (current_positions_count pd)
           < effective_positions (get_builder_data portfolio_builder_data (pd_name pd))
       \<and> total_real_weight (get_builder_data portfolio_builder_data (pd_name pd)) < 995 / 10")
    case False
    with Some show ?thesis
      by (auto simp: pe_sectors_entry missing_sectors_cases comp_def)
  next
    case True
    with Some show ?thesis
      by (simp add: pe_sectors_entry missing_sectors_cases comp_def)
  qed
qed

theorem missing_positions_placeholders_witness:
  "map se_name (pe_sectors (allocation_target_entry
     [(''P'', \<lparr>bd_minPositions = Some 1, bd_desiredPositions = Some 3, bd_allocation = Some 100,
      bd_positions =
        [\<lparr>bp_isPlaceholder = False, bp_weight = Some 50, bp_companyName = Some ''A''\<rparr>,
         \<lparr>bp_isPlaceholder = True, bp_weight = Some 10, bp_companyName = None\<rparr>]\<rparr>)]
     [\<lparr>tp_name = Some ''P'', tp_allocation = Some 100\<rparr>] 100
     \<lparr>pd_name = ''P'',
    pd_sectors =
      [(''Tech'', \<lparr>sd_positions =
         [\<lparr>name = ''A'', currentValue = 100, targetAllocation = 50,
             pos_identifier = Some ''A'', investment_type = Some ''Stock'',
             isPlaceholder = False, targetValue = None,
             capping = None\<rparr>],
       sd_currentValue = 100\<rparr>)],
    pd_currentValue = 100\<rparr>))
   = [''Tech'', ''Missing Positions'']
   \<and> length (se_positions (last (pe_sectors (allocation_target_entry
     [(''P'', \<lparr>bd_minPositions = Some 1, bd_desiredPositions = Some 3, bd_allocation = Some 100,
      bd_positions =
        [\<lparr>bp_isPlaceholder = False, bp_weight = Some 50, bp_companyName = Some ''A''\<rparr>,
         \<lparr>bp_isPlaceholder = True, bp_weight = Some 10, bp_companyName = None\<rparr>]\<rparr>)]
     [\<lparr>tp_name = Some ''P'', tp_allocation = Some 100\<rparr>] 100
     \<lparr>pd_name = ''P'',
    pd_sectors =
      [(''Tech'', \<lparr>sd_positions =
         [\<lparr>name = ''A'', currentValue = 100, targetAllocation = 50,
             pos_identifier = Some ''A'', investment_type = Some ''Stock'',
             isPlaceholder = False, targetValue = None,
             capping = None\<rparr>],
       sd_currentValue = 100\<rparr>)],
    pd_currentValue = 100\<rparr>)))) = 2"
proof -
  let ?pbd = "[(''P'', \<lparr>bd_minPositions = Some 1, bd_desiredPositions = Some 3, bd_allocation = Some 100,
      bd_positions =
        [\<lparr>bp_isPlaceholder = False, bp_weight = Some 50, bp_companyName = Some ''A''\<rparr>,
         \<lparr>bp_isPlaceholder = True, bp_weight = Some 10, bp_companyName = None\<rparr>]\<rparr>)]"
  let ?pd = "\<lparr>pd_name = ''P'',
    pd_sectors =
      [(''Tech'', \<lparr>sd_positions =
         [\<lparr>name = ''A'', currentValue = 100, targetAllocation = 50,
             pos_identifier = Some ''A'', investment_type = Some ''Stock'',
             isPlaceholder = False, targetValue = None,
             capping = None\<rparr>],
       sd_currentValue = 100\<rparr>)],
    pd_currentValue = 100\<rparr>"
  let ?ta = "[\<lparr>tp_name = Some ''P'', tp_allocation = Some 100\<rparr>]"
  have c: "placeholder_position (get_builder_data ?pbd (pd_name ?pd)) \<noteq> None
       \<and> int (current_positions_count ?pd)
           < effective_positions (get_builder_data ?pbd (pd_name ?pd))
       \<and> total_real_weight (get_builder_data ?pbd (pd_name ?pd)) < 995 / 10"
    by (simp add: get_builder_data_def placeholder_position_def current_positions_count_def
        effective_positions_def total_real_weight_def get_weight_def)
  have n: "effective_positions (get_builder_data ?pbd (pd_name ?pd))
           - int (current_positions_count ?pd) = 2"
    by (simp add: get_builder_data_def current_positions_count_def effective_positions_def)
  from missing_positions_placeholders [of ?pbd ?pd ?ta 100]
  obtain placeholder missing where
    "map se_name (pe_sectors (allocation_target_entry ?pbd ?ta 100 ?pd))
       = map fst (pd_sectors ?pd) @ [''Missing Positions'']"
    "last (pe_sectors (allocation_target_entry ?pbd ?ta 100 ?pd)) = missing"
    "int (length (se_positions missing))
       = effective_positions (get_builder_data ?pbd (pd_name ?pd))
         - int (current_positions_count ?pd)"
    unfolding if_P [OF c] by blast
  then show ?thesis unfolding n by simp
qed

text \<open>
  C7 as stated fails between 99.5 and 100: with a placeholder entry, one current position
  of three desired, and a real weight of 99.7 (below 100), \<open>round(99.7) = 100\<close> and no
  "Missing Positions" sector is made.
\<close>

theorem missing_positions_counterexample:
  "placeholder_position (get_builder_data
     [(''P'', \<lparr>bd_minPositions = Some 1, bd_desiredPositions = Some 3, bd_allocation = Some 100,
      bd_positions =
        [\<lparr>bp_isPlaceholder = False, bp_weight = Some (997 / 10), bp_companyName = Some ''A''\<rparr>,
         \<lparr>bp_isPlaceholder = True, bp_weight = Some 10, bp_companyName = None\<rparr>]\<rparr>)] ''P'') \<noteq> None
   \<and> int (current_positions_count
       (\<lparr>pd_name = ''P'',
    pd_sectors =
      [(''Tech'', \<lparr>sd_positions =
         [\<lparr>name = ''A'', currentValue = 100, targetAllocation = 50,
             pos_identifier = Some ''A'', investment_type = Some ''Stock'',
             isPlaceholder = False, targetValue = None,
             capping = None\<rparr>],
       sd_currentValue = 100\<rparr>)],
    pd_currentValue = 100\<rparr>))
     < effective_positions (get_builder_data
     [(''P'', \<lparr>bd_minPositions = Some 1, bd_desiredPositions = Some 3, bd_allocation = Some 100,
      bd_positions =
        [\<lparr>bp_isPlaceholder = False, bp_weight = Some (997 / 10), bp_companyName = Some ''A''\<rparr>,
         \<lparr>bp_isPlaceholder = True, bp_weight = Some 10, bp_companyName = None\<rparr>]\<rparr>)] ''P'')
   \<and> total_real_weight (get_builder_data
     [(''P'', \<lparr>bd_minPositions = Some 1, bd_desiredPositions = Some 3, bd_allocation = Some 100,
      bd_positions =
        [\<lparr>bp_isPlaceholder = False, bp_weight = Some (997 / 10), bp_companyName = Some ''A''\<rparr>,
         \<lparr>bp_isPlaceholder = True, bp_weight = Some 10, bp_companyName = None\<rparr>]\<rparr>)] ''P'') < 100
   \<and> map se_name (pe_sectors (allocation_target_entry
     [(''P'', \<lparr>bd_minPositions = Some 1, bd_desiredPositions = Some 3, bd_allocation = Some 100,
      bd_positions =
        [\<lparr>bp_isPlaceholder = False, bp_weight = Some (997 / 10), bp_companyName = Some ''A''\<rparr>,
         \<lparr>bp_isPlaceholder = True, bp_weight = Some 10, bp_companyName = None\<rparr>]\<rparr>)]
     [\<lparr>tp_name = Some ''P'', tp_allocation = Some 100\<rparr>] 100
     \<lparr>pd_name = ''P'',
    pd_sectors =
      [(''Tech'', \<lparr>sd_positions =
         [\<lparr>name = ''A'', currentValue = 100, targetAllocation = 50,
             pos_identifier = Some ''A'', investment_type = Some ''Stock'',
             isPlaceholder = False, targetValue = None,
             capping = None\<rparr>],
       sd_currentValue = 100\<rparr>)],
    pd_currentValue = 100\<rparr>))
   = [''Tech'']"
  by (simp add: get_builder_data_def placeholder_position_def current_positions_count_def
      effective_positions_def total_real_weight_def get_weight_def pe_sectors_entry
      missing_sectors_cases)

section \<open>Allocation targets with type constraints: lemmas and properties\<close>

lemma name_preserved [simp]:
  "name (init_metadata pos) = name pos"
  "name (zero_portfolio_value pos) = name pos"
  "name (cap_position rules v pos) = name pos"
  "name (set_constrained x pos) = name pos"
  by (simp_all add: init_metadata_def zero_portfolio_value_def cap_position_def
      set_constrained_def split: option.splits)

lemma map_name_redistribute [simp]:
  "map name (redistribute v positions) = map name positions"
  by (simp add: redistribute_eq comp_def if_distrib [of name] cong: if_cong)

lemma has_metadata_zero [simp]: "has_metadata (zero_portfolio_value pos)"
  by (simp add: has_metadata_def zero_portfolio_value_def)

lemma atcr_result_props:
  assumes run: "apply_type_constraints_recursive ps v rules 0 mx = Inr (e, r)"
  shows "map name r = map name ps" and "0 < mx \<Longrightarrow> \<forall>pos\<in>set r. has_metadata pos"
proof -
  consider (ceiling) "mx \<le> 0" | (zero) "0 < mx" "v \<le> 0" | (pass) "0 < mx" "0 < v"
    by linarith
  then have "map name r = map name ps \<and> (0 < mx \<longrightarrow> (\<forall>pos\<in>set r. has_metadata pos))"
  proof cases
    case ceiling
    with run show ?thesis by (simp add: atcr_ceiling)
  next
    case zero
    with run show ?thesis
      by (subst (asm) apply_type_constraints_recursive.simps) (auto simp: comp_def)
  next
    case pass
    have "(map name r = map name ps \<and> (\<forall>pos\<in>set r. has_metadata pos))
     \<and> (e = AllCapped \<longrightarrow> uncapped_positions r = [])
     \<and> (e = NoAvailableValue \<longrightarrow> uncapped_positions r \<noteq> [] \<and> v - capped_value r \<le> 0)
     \<and> (e = Converged \<longrightarrow> uncapped_positions r \<noteq> [] \<and> 0 < v - capped_value r
            \<and> (\<forall>pos\<in>set r. has_metadata pos)
            \<and> \<not> any_capped_this_iteration rules v r)
     \<and> e \<noteq> ZeroPortfolioValue"
      by (rule atcr_inv [OF run pass(2) _ pass(1),
            where I = "\<lambda>qs. map name qs = map name ps \<and> (\<forall>pos\<in>set qs. has_metadata pos)"])
         (simp_all add: comp_def meta_step)
    then show ?thesis by simp
  qed
  then show "map name r = map name ps" and "0 < mx \<Longrightarrow> \<forall>pos\<in>set r. has_metadata pos"
    by simp_all
qed


lemma position_lookup_mem:
  "position_lookup r n = Some pos \<Longrightarrow> pos \<in> set r"
  by (auto simp: position_lookup_def dest: map_of_SomeD)

lemma constrain_portfolio_eq:
  "constrain_portfolio rules pf =
     (if pe_targetValue pf = 0 \<or> valid_positions pf = [] then Inr pf
      else Inr (pf\<lparr>pe_sectors :=
                  map (constrain_sector
                         (position_lookup (snd (projr (apply_type_constraints_recursive
                            (valid_positions pf) (pe_targetValue pf) rules 0
                            default_max_iterations))))
                         (pe_targetValue pf))
                    (pe_sectors pf)\<rparr>))"
proof (cases "pe_targetValue pf = 0 \<or> valid_positions pf = []")
  case True
  then show ?thesis by (auto simp: constrain_portfolio_def Let_def)
next
  case False
  obtain e r where run: "apply_type_constraints_recursive (valid_positions pf)
      (pe_targetValue pf) rules 0 default_max_iterations = Inr (e, r)"
    using atcr_no_error by blast
  have "\<forall>pos\<in>set r. has_metadata pos"
    using atcr_result_props(2) [OF run] by (simp add: default_max_iterations_def)
  then have "\<not> copy_back_raises (position_lookup r) pos" for pos
    by (auto simp: copy_back_raises_def has_metadata_def split: option.splits
        dest!: position_lookup_mem)
  then have "\<not> list_ex (copy_back_raises (position_lookup r)) (sector_positions pf)"
    by (simp add: list_ex_iff)
  with False run show ?thesis
    by (simp add: constrain_portfolio_def Let_def)
qed

lemma constrain_portfolios_eq:
  "\<exists>result. constrain_portfolios rules portfolios = Inr result
     \<and> length result = length portfolios
     \<and> (\<forall>i<length portfolios. constrain_portfolio rules (portfolios ! i) = Inr (result ! i))"
proof (induction portfolios)
  case Nil
  then show ?case by simp
next
  case (Cons pf portfolios)
  then obtain result where r: "constrain_portfolios rules portfolios = Inr result"
    "length result = length portfolios"
    "\<forall>i<length portfolios. constrain_portfolio rules (portfolios ! i) = Inr (result ! i)"
    by blast
  have "\<exists>pf'. constrain_portfolio rules pf = Inr pf'"
    by (cases "pe_targetValue pf = 0 \<or> valid_positions pf = []")
       (simp_all add: constrain_portfolio_eq)
  then obtain pf' where p: "constrain_portfolio rules pf = Inr pf'" by blast
  have "\<forall>i<length (pf # portfolios).
          constrain_portfolio rules ((pf # portfolios) ! i) = Inr ((pf' # result) ! i)"
    using r(3) p by (auto simp: nth_Cons split: nat.splits)
  with r(1,2) p show ?case by simp
qed


lemma calculate_allocation_targets_nth:
  "i < length portfolio_map \<Longrightarrow>
   calculate_allocation_targets portfolio_map pbd ta tcv ! i
   = allocation_target_entry pbd ta tcv (snd (portfolio_map ! i))"
  by (simp add: calculate_allocation_targets_def split_beta)

lemma pe_targetValue_entry:
  "pe_targetValue (allocation_target_entry pbd ta tcv pd)
   = (portfolio_target_weight ta (pd_name pd) / 100) * tcv"
  by (simp add: allocation_target_entry_def Let_def)

lemma missing_sectors_positions:
  "sector \<in> set (missing_sectors bd pd) \<Longrightarrow> pos \<in> set (se_positions sector)
   \<Longrightarrow> capping pos = None \<and> isPlaceholder pos"
  by (auto simp: missing_sectors_def split: option.splits if_splits)

lemma entry_positions:
  assumes "sector \<in> set (pe_sectors (allocation_target_entry pbd ta tcv pd))"
    and "pos \<in> set (se_positions sector)"
  shows "targetValue pos = Some ((targetAllocation pos / 100) * pe_targetValue
           (allocation_target_entry pbd ta tcv pd))"
    and "capping pos = None
         \<or> (\<exists>sd\<in>snd ` set (pd_sectors pd). \<exists>p\<in>set (sd_positions sd). capping pos = capping p)"
proof -
  let ?v = "(portfolio_target_weight ta (pd_name pd) / 100) * tcv"
  from assms(1) obtain s where s: "s \<in> set (map data_sector (pd_sectors pd))
        \<union> set (missing_sectors (get_builder_data pbd (pd_name pd)) pd)"
    and sector: "sector = with_targets ?v s"
    unfolding pe_sectors_entry by auto
  from assms(2) obtain p where p: "p \<in> set (se_positions s)" "pos = position_with_target ?v p"
    unfolding sector by auto
  show "targetValue pos = Some ((targetAllocation pos / 100) * pe_targetValue
           (allocation_target_entry pbd ta tcv pd))"
    using p by (simp add: pe_targetValue_entry)
  from s show "capping pos = None
         \<or> (\<exists>sd\<in>snd ` set (pd_sectors pd). \<exists>p\<in>set (sd_positions sd). capping pos = capping p)"
  proof
    assume "s \<in> set (map data_sector (pd_sectors pd))"
    then obtain x where "x \<in> set (pd_sectors pd)" "s = data_sector x" by auto
    with p show ?thesis by auto
  next
    assume "s \<in> set (missing_sectors (get_builder_data pbd (pd_name pd)) pd)"
    with p show ?thesis using missing_sectors_positions by auto
  qed
qed

lemma input_positions_mem:
  "i < length portfolio_map \<Longrightarrow> sd \<in> snd ` set (pd_sectors (snd (portfolio_map ! i)))
   \<Longrightarrow> p \<in> set (sd_positions sd) \<Longrightarrow> p \<in> set (input_positions portfolio_map)"
  unfolding input_positions_def
  by (force simp: split_beta intro!: bexI [of _ "portfolio_map ! i"])

text \<open>
  C4, as amended. When the positions of the input carry no capping metadata, the
  type-constrained allocation always returns (it raises nothing), with one portfolio per
  portfolio of the input, and it returns a portfolio whose target value is 0 exactly as
  the unconstrained allocator left it: every position has target value 0 and no capping
  metadata at all (line 784 skips the portfolio). The marking itself is what
  \<open>_apply_type_constraints_recursive\<close> does when it is called below its iteration limit
  with a target value \<open>\<le> 0\<close>: every position it is given gets the constrained value 0, is
  capped, and has the rule \<open>zero_portfolio_value\<close>.
\<close>

theorem zero_target_value_portfolio:
  assumes "\<forall>pos\<in>set (input_positions portfolio_map). capping pos = None"
  shows "\<exists>result.
      calculate_allocation_targets_with_type_constraints portfolio_map pbd ta tcv rules
        = Inr result
      \<and> length result = length portfolio_map
      \<and> (\<forall>i<length portfolio_map.
           pe_targetValue (calculate_allocation_targets portfolio_map pbd ta tcv ! i) = 0 \<longrightarrow>
             result ! i = calculate_allocation_targets portfolio_map pbd ta tcv ! i
             \<and> (\<forall>sector\<in>set (pe_sectors (result ! i)). \<forall>pos\<in>set (se_positions sector).
                   targetValue pos = Some 0 \<and> capping pos = None))
      \<and> (v \<le> 0 \<and> iteration < max_iterations \<longrightarrow>
           apply_type_constraints_recursive positions v caps iteration max_iterations
             = Inr (ZeroPortfolioValue, map zero_portfolio_value positions)
           \<and> (\<forall>pos\<in>set (map zero_portfolio_value positions).
                 constrained_value pos = 0 \<and> get_is_capped pos
                 \<and> map_option applicable_rule (capping pos)
                     = Some (Some ''zero_portfolio_value'')))"
proof -
  let ?cat = "calculate_allocation_targets portfolio_map pbd ta tcv"
  obtain result where r: "constrain_portfolios (parse_rules rules) ?cat = Inr result"
    "length result = length ?cat"
    "\<forall>i<length ?cat. constrain_portfolio (parse_rules rules) (?cat ! i) = Inr (result ! i)"
    using constrain_portfolios_eq by blast
  have len: "length ?cat = length portfolio_map"
    by (simp add: calculate_allocation_targets_def)
  have "result ! i = ?cat ! i
        \<and> (\<forall>sector\<in>set (pe_sectors (result ! i)). \<forall>pos\<in>set (se_positions sector).
                   targetValue pos = Some 0 \<and> capping pos = None)"
    if i: "i < length portfolio_map" and z: "pe_targetValue (?cat ! i) = 0" for i
  proof -
    have eq: "result ! i = ?cat ! i"
      using r(3) [rule_format, of i] i len z by (simp add: constrain_portfolio_eq)
    have "targetValue pos = Some 0 \<and> capping pos = None"
      if "sector \<in> set (pe_sectors (?cat ! i))" "pos \<in> set (se_positions sector)"
      for sector pos
      using entry_positions [of sector pbd ta tcv "snd (portfolio_map ! i)" pos]
        that z i assms input_positions_mem [OF i]
      by (auto simp: calculate_allocation_targets_nth)
    with eq show ?thesis by simp
  qed
  moreover have "apply_type_constraints_recursive positions v caps iteration max_iterations
             = Inr (ZeroPortfolioValue, map zero_portfolio_value positions)"
    if "v \<le> 0" "iteration < max_iterations"
    using that by (subst apply_type_constraints_recursive.simps) simp
  moreover have "constrained_value pos = 0 \<and> get_is_capped pos
                 \<and> map_option applicable_rule (capping pos)
                     = Some (Some ''zero_portfolio_value'')"
    if "pos \<in> set (map zero_portfolio_value positions)" for pos
    using that by (auto simp: zero_portfolio_value_def constrained_value_def get_is_capped_def)
  ultimately show ?thesis
    using r(1,2) len
    by (auto simp: calculate_allocation_targets_with_type_constraints_def)
qed

theorem zero_target_value_portfolio_witness:
  "\<exists>result.
     calculate_allocation_targets_with_type_constraints
       [(1, \<lparr>pd_name = ''P'',
    pd_sectors =
      [(''Tech'', \<lparr>sd_positions =
         [\<lparr>name = ''A'', currentValue = 80, targetAllocation = 50,
             pos_identifier = Some ''A'', investment_type = Some ''Stock'',
             isPlaceholder = False, targetValue = None,
             capping = None\<rparr>],
       sd_currentValue = 80\<rparr>)],
    pd_currentValue = 80\<rparr>)]
       [] [\<lparr>tp_name = Some ''P'', tp_allocation = Some 0\<rparr>] 80 None = Inr result
     \<and> result ! 0
         = calculate_allocation_targets
             [(1, \<lparr>pd_name = ''P'',
    pd_sectors =
      [(''Tech'', \<lparr>sd_positions =
         [\<lparr>name = ''A'', currentValue = 80, targetAllocation = 50,
             pos_identifier = Some ''A'', investment_type = Some ''Stock'',
             isPlaceholder = False, targetValue = None,
             capping = None\<rparr>],
       sd_currentValue = 80\<rparr>)],
    pd_currentValue = 80\<rparr>)]
             [] [\<lparr>tp_name = Some ''P'', tp_allocation = Some 0\<rparr>] 80 ! 0
     \<and> apply_type_constraints_recursive
         [\<lparr>name = ''A'', currentValue = 80, targetAllocation = 50,
       pos_identifier = Some ''A'', investment_type = Some ''Stock'',
       isPlaceholder = False, targetValue = None,
       capping = None\<rparr>]
         0 (parse_rules None) 0 100
       = Inr (ZeroPortfolioValue,
              map zero_portfolio_value
                [\<lparr>name = ''A'', currentValue = 80, targetAllocation = 50,
       pos_identifier = Some ''A'', investment_type = Some ''Stock'',
       isPlaceholder = False, targetValue = None,
       capping = None\<rparr>])"
proof -
  let ?pm = "[(1, \<lparr>pd_name = ''P'',
    pd_sectors =
      [(''Tech'', \<lparr>sd_positions =
         [\<lparr>name = ''A'', currentValue = 80, targetAllocation = 50,
             pos_identifier = Some ''A'', investment_type = Some ''Stock'',
             isPlaceholder = False, targetValue = None,
             capping = None\<rparr>],
       sd_currentValue = 80\<rparr>)],
    pd_currentValue = 80\<rparr>)]"
  let ?ta = "[\<lparr>tp_name = Some ''P'', tp_allocation = Some 0\<rparr>]"
  have none: "\<forall>pos\<in>set (input_positions ?pm). capping pos = None"
    by (simp add: input_positions_def)
  have len: "0 < length ?pm" by simp
  have zero: "pe_targetValue (calculate_allocation_targets ?pm [] ?ta 80 ! 0) = 0"
    by (simp add: calculate_allocation_targets_def pe_targetValue_entry
        portfolio_target_weight_def)
  have v: "(0::real) \<le> 0 \<and> (0::int) < 100" by simp
  note t = zero_target_value_portfolio [where portfolio_map = ?pm and pbd = "[]" and ta = ?ta
      and tcv = 80 and rules = None and v = 0 and iteration = 0 and max_iterations = 100
      and positions = "[\<lparr>name = ''A'', currentValue = 80, targetAllocation = 50,
       pos_identifier = Some ''A'', investment_type = Some ''Stock'',
       isPlaceholder = False, targetValue = None,
       capping = None\<rparr>]"
      and caps = "parse_rules None", OF none]
  from t show ?thesis
  proof (elim exE conjE)
    fix result
    assume r: "calculate_allocation_targets_with_type_constraints ?pm [] ?ta 80 None = Inr result"
    assume z: "\<forall>i<length ?pm.
           pe_targetValue (calculate_allocation_targets ?pm [] ?ta 80 ! i) = 0 \<longrightarrow>
             result ! i = calculate_allocation_targets ?pm [] ?ta 80 ! i
             \<and> (\<forall>sector\<in>set (pe_sectors (result ! i)). \<forall>pos\<in>set (se_positions sector).
                   targetValue pos = Some 0 \<and> capping pos = None)"
    assume a: "(0::real) \<le> 0 \<and> (0::int) < 100 \<longrightarrow>
           apply_type_constraints_recursive
             [\<lparr>name = ''A'', currentValue = 80, targetAllocation = 50,
       pos_identifier = Some ''A'', investment_type = Some ''Stock'',
       isPlaceholder = False, targetValue = None,
       capping = None\<rparr>]
             0 (parse_rules None) 0 100
             = Inr (ZeroPortfolioValue, map zero_portfolio_value
                [\<lparr>name = ''A'', currentValue = 80, targetAllocation = 50,
       pos_identifier = Some ''A'', investment_type = Some ''Stock'',
       isPlaceholder = False, targetValue = None,
       capping = None\<rparr>])
           \<and> (\<forall>pos\<in>set (map zero_portfolio_value
                [\<lparr>name = ''A'', currentValue = 80, targetAllocation = 50,
       pos_identifier = Some ''A'', investment_type = Some ''Stock'',
       isPlaceholder = False, targetValue = None,
       capping = None\<rparr>]).
                 constrained_value pos = 0 \<and> get_is_capped pos
                 \<and> map_option applicable_rule (capping pos)
                     = Some (Some ''zero_portfolio_value''))"
    have z0: "result ! 0 = calculate_allocation_targets ?pm [] ?ta 80 ! 0"
      using z [rule_format, OF len zero] by (rule conjunct1)
    have a0: "apply_type_constraints_recursive
             [\<lparr>name = ''A'', currentValue = 80, targetAllocation = 50,
       pos_identifier = Some ''A'', investment_type = Some ''Stock'',
       isPlaceholder = False, targetValue = None,
       capping = None\<rparr>]
             0 (parse_rules None) 0 100
             = Inr (ZeroPortfolioValue, map zero_portfolio_value
                [\<lparr>name = ''A'', currentValue = 80, targetAllocation = 50,
       pos_identifier = Some ''A'', investment_type = Some ''Stock'',
       isPlaceholder = False, targetValue = None,
       capping = None\<rparr>])"
      using a [rule_format, OF v] by (rule conjunct1)
    show ?thesis
      by (rule exI [of _ result]) (intro conjI r z0 a0)
  qed
qed

text \<open>
  C4 as stated fails: a portfolio with target weight 0 comes back with its position A
  not capped and without any capping metadata.
\<close>

theorem zero_target_value_counterexample:
  "calculate_allocation_targets_with_type_constraints
     [(1, \<lparr>pd_name = ''P'',
    pd_sectors =
      [(''Tech'', \<lparr>sd_positions =
         [\<lparr>name = ''A'', currentValue = 80, targetAllocation = 50,
             pos_identifier = Some ''A'', investment_type = Some ''Stock'',
             isPlaceholder = False, targetValue = None,
             capping = None\<rparr>],
       sd_currentValue = 80\<rparr>)],
    pd_currentValue = 80\<rparr>)]
     [] [\<lparr>tp_name = Some ''P'', tp_allocation = Some 0\<rparr>] 80 None
   = Inr
     [\<lparr>pe_name = ''P'', pe_currentValue = 80, pe_targetWeight = 0, pe_color = [],
       pe_sectors =
         [\<lparr>se_name = ''Tech'',
          se_positions =
            [\<lparr>name = ''A'', currentValue = 80, targetAllocation = 50,
                pos_identifier = Some ''A'', investment_type = Some ''Stock'',
                isPlaceholder = False, targetValue = Some 0,
                capping = None\<rparr>],
          se_currentValue = 80, se_positionCount = 1,
          se_isPlaceholder = False, se_targetValue = 0, se_targetWeight = 0\<rparr>],
       pe_minPositions = 0, pe_desiredPositions = None, pe_effectivePositions = 0,
       pe_builderPositions = [], pe_builderAllocation = 0,
       pe_targetValue = 0, pe_targetAllocation_portfolio = 0\<rparr>]
   \<and> \<not> get_is_capped
       (\<lparr>name = ''A'', currentValue = 80, targetAllocation = 50,
       pos_identifier = Some ''A'', investment_type = Some ''Stock'',
       isPlaceholder = False, targetValue = Some 0,
       capping = None\<rparr>)
   \<and> capping
       (\<lparr>name = ''A'', currentValue = 80, targetAllocation = 50,
       pos_identifier = Some ''A'', investment_type = Some ''Stock'',
       isPlaceholder = False, targetValue = Some 0,
       capping = None\<rparr>) = None"
  by code_simp



section \<open>Type-constrained allocator: conservation and redistribution\<close>









lemma get_is_capped_redistribute_nth:
  "i < length positions
   \<Longrightarrow> get_is_capped (redistribute v positions ! i) = get_is_capped (positions ! i)"
  using map_get_is_capped_redistribute [of v positions]
  by (metis length_map nth_map)

lemma length_redistribute [simp]: "length (redistribute v positions) = length positions"
  using map_get_is_capped_redistribute [of v positions] by (metis length_map)

lemma uncapped_weight_redistribute:
  "sum_list (map unconstrained_value (uncapped_positions (redistribute v positions)))
   = sum_list (map unconstrained_value (uncapped_positions positions))"
  by (simp add: uncapped_positions_redistribute comp_def)

lemma length_uncapped_redistribute:
  "length (uncapped_positions (redistribute v positions))
   = length (uncapped_positions positions)"
  by (simp add: uncapped_positions_redistribute)

text \<open>
  C3. Take a pass of the allocator that is entered with the list \<open>qs\<close> (the initialised
  input at iteration 0), finds capacity left and caps at least one position, after
  which an uncapped position remains and the remaining capacity is positive. Then the
  allocator stopped right after this pass (iteration limit \<open>iteration + 1\<close>) returns a list
  \<open>out\<close> in which every uncapped position has the constrained value \<open>u / W * A\<close>: \<open>u\<close> is
  its \<open>unconstrained_target_value\<close>, unchanged since it entered the pass, \<open>W\<close> the sum of
  these values over the uncapped positions of \<open>out\<close>, and \<open>A\<close> the portfolio target value
  minus the constrained values of the capped positions of \<open>out\<close>. When \<open>W\<close> is not positive
  (in particular when it is 0) each uncapped position has the equal share \<open>A\<close> divided by
  the number of uncapped positions. With a larger iteration limit the recursion
  continues on \<open>out\<close>, and \<open>out\<close> is the final result when the next pass caps nothing.
\<close>

theorem redistribution_shape:
  assumes v: "0 < v" and it: "0 \<le> iteration"
    and qs: "qs = (if iteration = 0 then map init_metadata positions else positions)"
    and meta: "\<forall>pos\<in>set qs. has_metadata pos"
    and avail: "0 < v - capped_value qs"
    and any: "any_capped_this_iteration rules v qs"
    and unc: "uncapped_positions (map (cap_position rules v) qs) \<noteq> []"
    and A: "0 < v - capped_value (map (cap_position rules v) qs)"
  shows "\<exists>out.
      apply_type_constraints_recursive positions v rules iteration (iteration + 1)
        = Inr (MaxIterations, out)
      \<and> (iteration < max_iterations \<longrightarrow>
           apply_type_constraints_recursive positions v rules iteration max_iterations
           = apply_type_constraints_recursive out v rules (iteration + 1) max_iterations)
      \<and> (iteration + 1 < max_iterations \<and> \<not> any_capped_this_iteration rules v out \<longrightarrow>
           apply_type_constraints_recursive positions v rules iteration max_iterations
           = Inr (Converged, out))
      \<and> length out = length qs
      \<and> map get_is_capped out = map get_is_capped (map (cap_position rules v) qs)
      \<and> capped_value out = capped_value (map (cap_position rules v) qs)
      \<and> (\<forall>i<length qs. \<not> get_is_capped (out ! i) \<longrightarrow>
            unconstrained_value (out ! i) = unconstrained_value (qs ! i)
            \<and> constrained_value (out ! i)
              = (if 0 < sum_list (map unconstrained_value (uncapped_positions out))
                 then (unconstrained_value (qs ! i)
                        / sum_list (map unconstrained_value (uncapped_positions out)))
                      * (v - capped_value out)
                 else (v - capped_value out) / real (length (uncapped_positions out))))"
proof -
  define cs where "cs = map (cap_position rules v) qs"
  define out where "out = redistribute v cs"
  have uq: "uncapped_positions qs \<noteq> []"
    using unc by (rule uncapped_after_cap_pass)
  have nometa: "\<not> list_ex (\<lambda>pos. capping pos = None) qs"
    using meta by (simp add: list_ex_no_metadata)
  have step: "apply_type_constraints_recursive positions v rules iteration mx
              = apply_type_constraints_recursive out v rules (iteration + 1) mx"
    if "iteration < mx" for mx
    unfolding atcr_unfold [OF that v qs] out_def cs_def
    using uq avail nometa any by simp
  have one: "apply_type_constraints_recursive positions v rules iteration (iteration + 1)
        = Inr (MaxIterations, out)"
    using step [of "iteration + 1"] by (simp add: atcr_ceiling)
  have mo: "\<forall>pos\<in>set out. has_metadata pos"
    unfolding out_def cs_def using meta by (rule meta_step)
  have uo: "uncapped_positions out \<noteq> []" using unc by (simp add: out_def cs_def)
  have co: "capped_value out = capped_value cs" by (simp add: out_def)
  have conv: "apply_type_constraints_recursive positions v rules iteration max_iterations
           = Inr (Converged, out)"
    if lt: "iteration + 1 < max_iterations" and na: "\<not> any_capped_this_iteration rules v out"
  proof -
    have o: "out = (if iteration + 1 = 0 then map init_metadata out else out)"
      using it by simp
    have "apply_type_constraints_recursive out v rules (iteration + 1) max_iterations
          = Inr (Converged, out)"
      unfolding atcr_unfold [OF lt v o]
      using uo A na mo by (simp add: co cs_def list_ex_no_metadata)
    with step [of max_iterations] lt show ?thesis by simp
  qed
  have shape: "unconstrained_value (out ! i) = unconstrained_value (qs ! i)
            \<and> constrained_value (out ! i)
              = (if 0 < sum_list (map unconstrained_value (uncapped_positions out))
                 then (unconstrained_value (qs ! i)
                        / sum_list (map unconstrained_value (uncapped_positions out)))
                      * (v - capped_value out)
                 else (v - capped_value out) / real (length (uncapped_positions out)))"
    if i: "i < length qs" and ui: "\<not> get_is_capped (out ! i)" for i
  proof -
    have len: "i < length cs" using i by (simp add: cs_def)
    have ci: "\<not> get_is_capped (cs ! i)"
      using ui len by (simp add: out_def get_is_capped_redistribute_nth)
    have m: "has_metadata (cs ! i)" using meta i by (simp add: cs_def)
    have u: "unconstrained_value (cs ! i) = unconstrained_value (qs ! i)"
      using i by (simp add: cs_def)
    have r: "out ! i = set_constrained (share_of v cs (cs ! i)) (cs ! i)"
      using unc A len ci by (simp add: out_def redistribute_eq cs_def)
    show ?thesis
      unfolding r using m u
      by (simp add: constrained_value_set_constrained share_of_def Let_def out_def
          uncapped_weight_redistribute length_uncapped_redistribute)
  qed
  have "length out = length qs" by (simp add: out_def cs_def)
  moreover have "map get_is_capped out = map get_is_capped cs" by (simp add: out_def)
  ultimately show ?thesis
    using one step conv shape co unfolding cs_def by blast
qed

theorem redistribution_shape_witness:
  "(\<exists>out.
       apply_type_constraints_recursive
         [\<lparr>name = ''A'', currentValue = 0, targetAllocation = 0,
           pos_identifier = Some ''A'', investment_type = Some ''Stock'',
           isPlaceholder = False, targetValue = Some 9000,
           capping = None\<rparr>,
          \<lparr>name = ''B'', currentValue = 0, targetAllocation = 0,
           pos_identifier = Some ''B'', investment_type = Some ''Stock'',
           isPlaceholder = False, targetValue = Some 1000,
           capping = None\<rparr>]
         10000 \<lparr>max_stock_pct = 50, max_etf_pct = 50, max_crypto_pct = 50\<rparr> 0 1
       = Inr (MaxIterations, out)
       \<and> apply_type_constraints_recursive
         [\<lparr>name = ''A'', currentValue = 0, targetAllocation = 0,
           pos_identifier = Some ''A'', investment_type = Some ''Stock'',
           isPlaceholder = False, targetValue = Some 9000,
           capping = None\<rparr>,
          \<lparr>name = ''B'', currentValue = 0, targetAllocation = 0,
           pos_identifier = Some ''B'', investment_type = Some ''Stock'',
           isPlaceholder = False, targetValue = Some 1000,
           capping = None\<rparr>]
         10000 \<lparr>max_stock_pct = 50, max_etf_pct = 50, max_crypto_pct = 50\<rparr> 0 100
       = Inr (Converged, out)
       \<and> constrained_value (out ! 1) = (1000 / 1000) * 5000)
   \<and> (\<exists>out.
       apply_type_constraints_recursive
         [\<lparr>name = ''A'', currentValue = 0, targetAllocation = 0,
           pos_identifier = Some ''A'', investment_type = Some ''Stock'',
           isPlaceholder = False, targetValue = Some 9000,
           capping = None\<rparr>,
          \<lparr>name = ''B'', currentValue = 0, targetAllocation = 0,
           pos_identifier = Some ''B'', investment_type = Some ''Stock'',
           isPlaceholder = False, targetValue = Some 0,
           capping = None\<rparr>,
          \<lparr>name = ''C'', currentValue = 0, targetAllocation = 0,
           pos_identifier = Some ''C'', investment_type = Some ''Stock'',
           isPlaceholder = False, targetValue = Some 0,
           capping = None\<rparr>]
         10000 \<lparr>max_stock_pct = 50, max_etf_pct = 50, max_crypto_pct = 50\<rparr> 0 1
       = Inr (MaxIterations, out)
       \<and> apply_type_constraints_recursive
         [\<lparr>name = ''A'', currentValue = 0, targetAllocation = 0,
           pos_identifier = Some ''A'', investment_type = Some ''Stock'',
           isPlaceholder = False, targetValue = Some 9000,
           capping = None\<rparr>,
          \<lparr>name = ''B'', currentValue = 0, targetAllocation = 0,
           pos_identifier = Some ''B'', investment_type = Some ''Stock'',
           isPlaceholder = False, targetValue = Some 0,
           capping = None\<rparr>,
          \<lparr>name = ''C'', currentValue = 0, targetAllocation = 0,
           pos_identifier = Some ''C'', investment_type = Some ''Stock'',
           isPlaceholder = False, targetValue = Some 0,
           capping = None\<rparr>]
         10000 \<lparr>max_stock_pct = 50, max_etf_pct = 50, max_crypto_pct = 50\<rparr> 0 100
       = Inr (Converged, out)
       \<and> constrained_value (out ! 2) = 5000 / real 2)"
proof -
  have weighted: "\<exists>out.
       apply_type_constraints_recursive
         [\<lparr>name = ''A'', currentValue = 0, targetAllocation = 0,
           pos_identifier = Some ''A'', investment_type = Some ''Stock'',
           isPlaceholder = False, targetValue = Some 9000,
           capping = None\<rparr>,
          \<lparr>name = ''B'', currentValue = 0, targetAllocation = 0,
           pos_identifier = Some ''B'', investment_type = Some ''Stock'',
           isPlaceholder = False, targetValue = Some 1000,
           capping = None\<rparr>]
         10000 \<lparr>max_stock_pct = 50, max_etf_pct = 50, max_crypto_pct = 50\<rparr> 0 1
       = Inr (MaxIterations, out)
       \<and> apply_type_constraints_recursive
         [\<lparr>name = ''A'', currentValue = 0, targetAllocation = 0,
           pos_identifier = Some ''A'', investment_type = Some ''Stock'',
           isPlaceholder = False, targetValue = Some 9000,
           capping = None\<rparr>,
          \<lparr>name = ''B'', currentValue = 0, targetAllocation = 0,
           pos_identifier = Some ''B'', investment_type = Some ''Stock'',
           isPlaceholder = False, targetValue = Some 1000,
           capping = None\<rparr>]
         10000 \<lparr>max_stock_pct = 50, max_etf_pct = 50, max_crypto_pct = 50\<rparr> 0 100
       = Inr (Converged, out)
       \<and> constrained_value (out ! 1) = (1000 / 1000) * 5000"
  proof -
    let ?ps = "[\<lparr>name = ''A'', currentValue = 0, targetAllocation = 0,
           pos_identifier = Some ''A'', investment_type = Some ''Stock'',
           isPlaceholder = False, targetValue = Some 9000,
           capping = None\<rparr>,
          \<lparr>name = ''B'', currentValue = 0, targetAllocation = 0,
           pos_identifier = Some ''B'', investment_type = Some ''Stock'',
           isPlaceholder = False, targetValue = Some 1000,
           capping = None\<rparr>]"
    let ?rules = "\<lparr>max_stock_pct = 50, max_etf_pct = 50, max_crypto_pct = 50\<rparr>"
    let ?out = "[\<lparr>name = ''A'', currentValue = 0, targetAllocation = 0,
           pos_identifier = Some ''A'', investment_type = Some ''Stock'',
           isPlaceholder = False, targetValue = Some 9000,
           capping = Some \<lparr>unconstrained_target_value = 9000, constrained_target_value = 5000,
                         is_capped = True, applicable_rule = Some ''maxPerStock''\<rparr>\<rparr>,
          \<lparr>name = ''B'', currentValue = 0, targetAllocation = 0,
           pos_identifier = Some ''B'', investment_type = Some ''Stock'',
           isPlaceholder = False, targetValue = Some 1000,
           capping = Some \<lparr>unconstrained_target_value = 1000, constrained_target_value = 5000,
                         is_capped = False, applicable_rule = None\<rparr>\<rparr>]"
    have v: "(0::real) < 10000" and it: "(0::int) \<le> 0" by simp_all
    have q: "map init_metadata ?ps = (if (0::int) = 0 then map init_metadata ?ps else ?ps)"
      by simp
    have m: "\<forall>pos\<in>set (map init_metadata ?ps). has_metadata pos" by simp
    have a: "0 < 10000 - capped_value (map init_metadata ?ps)" by code_simp
    have c: "any_capped_this_iteration ?rules 10000 (map init_metadata ?ps)" by code_simp
    have u: "uncapped_positions (map (cap_position ?rules 10000) (map init_metadata ?ps)) \<noteq> []"
      by code_simp
    have r: "0 < 10000 - capped_value (map (cap_position ?rules 10000) (map init_metadata ?ps))"
      by code_simp
    have ev: "apply_type_constraints_recursive ?ps 10000 ?rules 0 1 = Inr (MaxIterations, ?out)"
      by code_simp
    have na: "(0::int) + 1 < 100 \<and> \<not> any_capped_this_iteration ?rules 10000 ?out"
      by code_simp
    have i: "1 < length (map init_metadata ?ps)" by simp
    have ui: "\<not> get_is_capped (?out ! 1)" by code_simp
    have val: "(if 0 < sum_list (map unconstrained_value (uncapped_positions ?out))
                 then (unconstrained_value (map init_metadata ?ps ! 1)
                        / sum_list (map unconstrained_value (uncapped_positions ?out)))
                      * (10000 - capped_value ?out)
                 else (10000 - capped_value ?out) / real (length (uncapped_positions ?out)))
               = (1000 / 1000) * 5000"
      by code_simp
    from redistribution_shape [where positions = ?ps and v = 10000 and rules = ?rules
        and iteration = 0 and max_iterations = 100 and qs = "map init_metadata ?ps",
        OF v it q m a c u r]
    show ?thesis
    proof (elim exE conjE)
      fix out
      assume one: "apply_type_constraints_recursive ?ps 10000 ?rules 0 (0 + 1)
                     = Inr (MaxIterations, out)"
      assume conv: "(0::int) + 1 < 100 \<and> \<not> any_capped_this_iteration ?rules 10000 out \<longrightarrow>
           apply_type_constraints_recursive ?ps 10000 ?rules 0 100 = Inr (Converged, out)"
      assume shape: "\<forall>i<length (map init_metadata ?ps). \<not> get_is_capped (out ! i) \<longrightarrow>
            unconstrained_value (out ! i) = unconstrained_value (map init_metadata ?ps ! i)
            \<and> constrained_value (out ! i)
              = (if 0 < sum_list (map unconstrained_value (uncapped_positions out))
                 then (unconstrained_value (map init_metadata ?ps ! i)
                        / sum_list (map unconstrained_value (uncapped_positions out)))
                      * (10000 - capped_value out)
                 else (10000 - capped_value out) / real (length (uncapped_positions out)))"
      from one ev have o: "out = ?out" by simp
      have one': "apply_type_constraints_recursive ?ps 10000 ?rules 0 1 = Inr (MaxIterations, out)"
        using ev o by simp
      have conv': "apply_type_constraints_recursive ?ps 10000 ?rules 0 100 = Inr (Converged, out)"
        using conv na unfolding o by (rule mp)
      have "constrained_value (out ! 1) = (1000 / 1000) * 5000"
        using shape [rule_format, OF i] ui val unfolding o by simp
      with one' conv' show ?thesis by (intro exI [of _ out] conjI)
    qed
  qed
  have equal: "\<exists>out.
       apply_type_constraints_recursive
         [\<lparr>name = ''A'', currentValue = 0, targetAllocation = 0,
           pos_identifier = Some ''A'', investment_type = Some ''Stock'',
           isPlaceholder = False, targetValue = Some 9000,
           capping = None\<rparr>,
          \<lparr>name = ''B'', currentValue = 0, targetAllocation = 0,
           pos_identifier = Some ''B'', investment_type = Some ''Stock'',
           isPlaceholder = False, targetValue = Some 0,
           capping = None\<rparr>,
          \<lparr>name = ''C'', currentValue = 0, targetAllocation = 0,
           pos_identifier = Some ''C'', investment_type = Some ''Stock'',
           isPlaceholder = False, targetValue = Some 0,
           capping = None\<rparr>]
         10000 \<lparr>max_stock_pct = 50, max_etf_pct = 50, max_crypto_pct = 50\<rparr> 0 1
       = Inr (MaxIterations, out)
       \<and> apply_type_constraints_recursive
         [\<lparr>name = ''A'', currentValue = 0, targetAllocation = 0,
           pos_identifier = Some ''A'', investment_type = Some ''Stock'',
           isPlaceholder = False, targetValue = Some 9000,
           capping = None\<rparr>,
          \<lparr>name = ''B'', currentValue = 0, targetAllocation = 0,
           pos_identifier = Some ''B'', investment_type = Some ''Stock'',
           isPlaceholder = False, targetValue = Some 0,
           capping = None\<rparr>,
          \<lparr>name = ''C'', currentValue = 0, targetAllocation = 0,
           pos_identifier = Some ''C'', investment_type = Some ''Stock'',
           isPlaceholder = False, targetValue = Some 0,
           capping = None\<rparr>]
         10000 \<lparr>max_stock_pct = 50, max_etf_pct = 50, max_crypto_pct = 50\<rparr> 0 100
       = Inr (Converged, out)
       \<and> constrained_value (out ! 2) = 5000 / real 2"
  proof -
    let ?ps = "[\<lparr>name = ''A'', currentValue = 0, targetAllocation = 0,
           pos_identifier = Some ''A'', investment_type = Some ''Stock'',
           isPlaceholder = False, targetValue = Some 9000,
           capping = None\<rparr>,
          \<lparr>name = ''B'', currentValue = 0, targetAllocation = 0,
           pos_identifier = Some ''B'', investment_type = Some ''Stock'',
           isPlaceholder = False, targetValue = Some 0,
           capping = None\<rparr>,
          \<lparr>name = ''C'', currentValue = 0, targetAllocation = 0,
           pos_identifier = Some ''C'', investment_type = Some ''Stock'',
           isPlaceholder = False, targetValue = Some 0,
           capping = None\<rparr>]"
    let ?rules = "\<lparr>max_stock_pct = 50, max_etf_pct = 50, max_crypto_pct = 50\<rparr>"
    let ?out = "[\<lparr>name = ''A'', currentValue = 0, targetAllocation = 0,
           pos_identifier = Some ''A'', investment_type = Some ''Stock'',
           isPlaceholder = False, targetValue = Some 9000,
           capping = Some \<lparr>unconstrained_target_value = 9000, constrained_target_value = 5000,
                         is_capped = True, applicable_rule = Some ''maxPerStock''\<rparr>\<rparr>,
          \<lparr>name = ''B'', currentValue = 0, targetAllocation = 0,
           pos_identifier = Some ''B'', investment_type = Some ''Stock'',
           isPlaceholder = False, targetValue = Some 0,
           capping = Some \<lparr>unconstrained_target_value = 0, constrained_target_value = 2500,
                         is_capped = False, applicable_rule = None\<rparr>\<rparr>,
          \<lparr>name = ''C'', currentValue = 0, targetAllocation = 0,
           pos_identifier = Some ''C'', investment_type = Some ''Stock'',
           isPlaceholder = False, targetValue = Some 0,
           capping = Some \<lparr>unconstrained_target_value = 0, constrained_target_value = 2500,
                         is_capped = False, applicable_rule = None\<rparr>\<rparr>]"
    have v: "(0::real) < 10000" and it: "(0::int) \<le> 0" by simp_all
    have q: "map init_metadata ?ps = (if (0::int) = 0 then map init_metadata ?ps else ?ps)"
      by simp
    have m: "\<forall>pos\<in>set (map init_metadata ?ps). has_metadata pos" by simp
    have a: "0 < 10000 - capped_value (map init_metadata ?ps)" by code_simp
    have c: "any_capped_this_iteration ?rules 10000 (map init_metadata ?ps)" by code_simp
    have u: "uncapped_positions (map (cap_position ?rules 10000) (map init_metadata ?ps)) \<noteq> []"
      by code_simp
    have r: "0 < 10000 - capped_value (map (cap_position ?rules 10000) (map init_metadata ?ps))"
      by code_simp
    have ev: "apply_type_constraints_recursive ?ps 10000 ?rules 0 1 = Inr (MaxIterations, ?out)"
      by code_simp
    have na: "(0::int) + 1 < 100 \<and> \<not> any_capped_this_iteration ?rules 10000 ?out"
      by code_simp
    have i: "2 < length (map init_metadata ?ps)" by simp
    have ui: "\<not> get_is_capped (?out ! 2)" by code_simp
    have val: "(if 0 < sum_list (map unconstrained_value (uncapped_positions ?out))
                 then (unconstrained_value (map init_metadata ?ps ! 2)
                        / sum_list (map unconstrained_value (uncapped_positions ?out)))
                      * (10000 - capped_value ?out)
                 else (10000 - capped_value ?out) / real (length (uncapped_positions ?out)))
               = 5000 / real 2"
      by code_simp
    from redistribution_shape [where positions = ?ps and v = 10000 and rules = ?rules
        and iteration = 0 and max_iterations = 100 and qs = "map init_metadata ?ps",
        OF v it q m a c u r]
    show ?thesis
    proof (elim exE conjE)
      fix out
      assume one: "apply_type_constraints_recursive ?ps 10000 ?rules 0 (0 + 1)
                     = Inr (MaxIterations, out)"
      assume conv: "(0::int) + 1 < 100 \<and> \<not> any_capped_this_iteration ?rules 10000 out \<longrightarrow>
           apply_type_constraints_recursive ?ps 10000 ?rules 0 100 = Inr (Converged, out)"
      assume shape: "\<forall>i<length (map init_metadata ?ps). \<not> get_is_capped (out ! i) \<longrightarrow>
            unconstrained_value (out ! i) = unconstrained_value (map init_metadata ?ps ! i)
            \<and> constrained_value (out ! i)
              = (if 0 < sum_list (map unconstrained_value (uncapped_positions out))
                 then (unconstrained_value (map init_metadata ?ps ! i)
                        / sum_list (map unconstrained_value (uncapped_positions out)))
                      * (10000 - capped_value out)
                 else (10000 - capped_value out) / real (length (uncapped_positions out)))"
      from one ev have o: "out = ?out" by simp
      have one': "apply_type_constraints_recursive ?ps 10000 ?rules 0 1 = Inr (MaxIterations, out)"
        using ev o by simp
      have conv': "apply_type_constraints_recursive ?ps 10000 ?rules 0 100 = Inr (Converged, out)"
        using conv na unfolding o by (rule mp)
      have "constrained_value (out ! 2) = 5000 / real 2"
        using shape [rule_format, OF i] ui val unfolding o by simp
      with one' conv' show ?thesis by (intro exI [of _ out] conjI)
    qed
  qed
  from weighted equal show ?thesis by (rule conjI)
qed

section \<open>Running the allocator on its own output: properties\<close>

lemma investment_type_preserved [simp]:
  "investment_type (init_metadata pos) = investment_type pos"
  "investment_type (zero_portfolio_value pos) = investment_type pos"
  by (simp_all add: init_metadata_def zero_portfolio_value_def)

lemma map_investment_type_redistribute [simp]:
  "map investment_type (redistribute v positions) = map investment_type positions"
  by (simp add: redistribute_eq comp_def if_distrib [of investment_type] cong: if_cong)






section \<open>Allocation targets with type constraints: skipped positions\<close>









end
